theory Spec2Isabelle
  imports Main
begin

section \<open>Shared data: errors, tasks, nodes\<close>

text \<open>
  Errors are values. A collaborator's failure is opaque (\<open>Opaque\<close> with its message);
  \<open>ZeroAddresses a\<close> is \<open>errors.Errorf("peer %q has zero addresses", a)\<close> of
  nodes/connect.go; \<open>Wrap e msg\<close> is \<open>errors.Wrap(e, msg)\<close> of the benchmark router.
  A Go \<open>error\<close> result is an \<open>error option\<close> (\<open>None\<close> is \<open>nil\<close>); a result
  \<open>(v, err)\<close> of which only one side is meaningful is \<open>error + 'a\<close>.
\<close>

datatype error = Opaque string | ZeroAddresses string | Wrap error string

datatype TaskType = TaskConnect | TaskOther string

record Task =
  Type :: TaskType
  Subject :: string

type_synonym cid = string

section \<open>scenarios: options derived from an object definition\<close>

text \<open>
  \<open>metadata.ObjectDefinition\<close> as the planner reads it. The field \<open>Type\<close> of the Go
  struct is \<open>ObjType\<close> here (\<open>Type\<close> is the task's field).
\<close>

record ObjectDefinition =
  ObjType :: string
  Source :: string
  Layout :: string
  Chunker :: string
  RawLeaves :: bool
  HashFunc :: string

datatype AddOption =
  WithLayout string | WithChunker string | WithRawLeaves bool | WithHashFunc string

definition AddOptionsFromDefinition :: "ObjectDefinition \<Rightarrow> AddOption list" where
  "AddOptionsFromDefinition odef =
     (let opts = [];
          opts = (if Layout odef \<noteq> [] then opts @ [WithLayout (Layout odef)] else opts);
          opts = (if Chunker odef \<noteq> [] then opts @ [WithChunker (Chunker odef)] else opts);
          opts = (if RawLeaves odef then opts @ [WithRawLeaves True] else opts);
          opts = (if HashFunc odef \<noteq> [] then opts @ [WithHashFunc (HashFunc odef)] else opts)
      in opts)"

section \<open>errgroup and loops that spawn goroutines\<close>

text \<open>
  \<open>errgroup.Group.Wait\<close> blocks until every goroutine of the group has returned and
  gives the first non-nil error in time. The results are listed in order of completion.
\<close>

fun first_error :: "error option list \<Rightarrow> error option" where
  "first_error [] = None"
| "first_error (None # rs) = first_error rs"
| "first_error (Some e # rs) = Some e"

fun err_of :: "error + 'a \<Rightarrow> error option" where
  "err_of (Inl e) = Some e"
| "err_of (Inr v) = None"

text \<open>
  A loop \<open>for i, n := range ns { g.Go(func() error { ... i ... n ... }) }\<close> only spawns:
  each goroutine runs at some later time. Where the closure names the loop variables
  themselves (nodes/connect.go lines 32-33 and 54-55, with no \<open>i, n := i, n\<close>), it reads the
  one pair of variables the loop keeps assigning, so the goroutine spawned in iteration
  \<open>k\<close> sees the values of some iteration \<open>reads k\<close> with \<open>k \<le> reads k\<close>: its own when it
  runs at once, the last one when it runs after the loop has ended. The planner's loop
  (part_000 line 43) rebinds \<open>name, odef := name, odef\<close> before spawning and is not
  affected. \<open>finish\<close> lists the goroutines in order of completion.
\<close>

record fanout =
  reads :: "nat \<Rightarrow> nat"
  finish :: "nat list"

definition fanout_ok :: "nat \<Rightarrow> fanout \<Rightarrow> bool" where
  "fanout_ok n F =
     (list_all (\<lambda>k. k \<le> reads F k \<and> reads F k < n) [0..<n]
      \<and> distinct (finish F) \<and> set (finish F) = set [0..<n])"

text \<open>Every goroutine sees the variables of its own iteration.\<close>

definition own_iteration :: "nat \<Rightarrow> fanout \<Rightarrow> bool" where
  "own_iteration n F = list_all (\<lambda>k. reads F k = k) [0..<n]"

section \<open>nodes: Connect\<close>

record PeerInfo =
  PeerID :: string
  Addrs :: "string list"

text \<open>
  A node as the core sees it: \<open>NodeID\<close> is \<open>ID()\<close>, \<open>Address\<close> is
  \<open>Metadata().Address\<close>. What the remote side answers is the environment: \<open>PeerInfo_of\<close>
  is the call \<open>n.PeerInfo(ctx)\<close>, \<open>Run\<close> the call \<open>n.Run(ctx, task)\<close>. Contexts are
  cancellation signals handed to these calls and are not modelled. (\<open>Connect\<close> assigns
  the first group's context to \<open>ctx\<close> at line 31 and derives the second group's from it
  at line 53, after the first \<open>Wait\<close> has cancelled it: the calls \<open>n.Run(ctx, task)\<close>
  receive a cancelled context. What \<open>Run\<close> does with it is the remote side's.)
\<close>

record Node =
  NodeID :: string
  Address :: string
  NodeLabels :: "string list"

record connect_env =
  PeerInfo_of :: "Node \<Rightarrow> error + PeerInfo"
  Run :: "Node \<Rightarrow> Task \<Rightarrow> error option"

text \<open>\<open>strings.Join\<close>.\<close>

fun Join :: "string list \<Rightarrow> string \<Rightarrow> string" where
  "Join [] sep = []"
| "Join [a] sep = a"
| "Join (a # b # rest) sep = a @ sep @ Join (b # rest) sep"

text \<open>
  The body of one address-collecting goroutine (lines 34-44) with the loop variables it
  sees: an error, or the write \<open>peerAddrs[i] = s\<close> it performs.
\<close>

definition collect_goroutine :: "connect_env \<Rightarrow> Node \<Rightarrow> nat \<Rightarrow> error + (nat \<times> string)" where
  "collect_goroutine E n i =
     (case PeerInfo_of E n of
        Inl err \<Rightarrow> Inl err
      | Inr peerInfo \<Rightarrow>
          if length (Addrs peerInfo) = 0 then Inl (ZeroAddresses (Address n))
          else Inr (i, Addrs peerInfo ! 0 @ ''/p2p/'' @ PeerID peerInfo))"

text \<open>The dial string of a node: its first address, \<open>/p2p/\<close>, its peer identifier.\<close>

definition dial_string :: "PeerInfo \<Rightarrow> string" where
  "dial_string peerInfo = Addrs peerInfo ! 0 @ ''/p2p/'' @ PeerID peerInfo"

fun write_slot :: "error + (nat \<times> string) \<Rightarrow> string list \<Rightarrow> string list" where
  "write_slot (Inl err) peerAddrs = peerAddrs"
| "write_slot (Inr (i, s)) peerAddrs = peerAddrs[i := s]"

text \<open>
  \<open>Connect\<close> returns its error and, beside it, the calls \<open>n.Run(ctx, task)\<close> it made,
  one per goroutine of the second loop, in spawning order. \<open>F1\<close> and \<open>F2\<close> are the
  schedules of the two loops.
\<close>

definition Connect ::
  "connect_env \<Rightarrow> fanout \<Rightarrow> fanout \<Rightarrow> Node list \<Rightarrow> error option \<times> (Node \<times> Task) list" where
  "Connect E F1 F2 ns =
     (let collected = (\<lambda>k. collect_goroutine E (ns ! reads F1 k) (reads F1 k));
          peerAddrs = fold (\<lambda>k. write_slot (collected k)) (finish F1) (replicate (length ns) []);
          err = first_error (map (\<lambda>k. err_of (collected k)) (finish F1))
      in case err of
           Some e \<Rightarrow> (Some e, [])
         | None \<Rightarrow>
            (let sent = (\<lambda>k. (ns ! reads F2 k, \<lparr>Type = TaskConnect, Subject = Join peerAddrs '',''\<rparr>));
                 err = first_error (map (\<lambda>k. case sent k of (n, task) \<Rightarrow> Run E n task) (finish F2))
             in (err, map sent [0..<length ns])))"

section \<open>scenarios: Plan\<close>

text \<open>
  The scenario definition. The planner ranges over \<open>sdef.Objects\<close>, \<open>sdef.Seed\<close> and
  \<open>sdef.Benchmark\<close> with a key and a value, the key being the object name, respectively
  the query expression (part_000 lines 42, 70, 107): Go maps. A Go map has no order of its
  own, and the order in which \<open>range\<close> yields its entries is left open by the language.
  The model takes it as part of the schedule: the keys of the map, each once, in the order
  of this run.
\<close>

record ScenarioDefinition =
  def_Objects :: "string \<rightharpoonup> ObjectDefinition"
  def_Seed :: "string \<rightharpoonup> string"
  def_Benchmark :: "string \<rightharpoonup> string"

record ScenarioPlan =
  Objects :: "string \<rightharpoonup> cid"
  Seed :: "string \<rightharpoonup> Task"
  Benchmark :: "string \<rightharpoonup> Task"

definition range_order :: "('k \<rightharpoonup> 'v) \<Rightarrow> 'k list \<Rightarrow> bool" where
  "range_order m ks = (distinct ks \<and> set ks = dom m)"

definition range_entries :: "('k \<rightharpoonup> 'v) \<Rightarrow> 'k list \<Rightarrow> ('k \<times> 'v) list" where
  "range_entries m ks = List.map_filter (\<lambda>k. map_option (Pair k) (m k)) ks"

record plan_sched =
  objects_done :: "string list"
  seed_keys :: "string list"
  benchmark_keys :: "string list"

definition plan_sched_ok :: "ScenarioDefinition \<Rightarrow> plan_sched \<Rightarrow> bool" where
  "plan_sched_ok sdef S =
     (range_order (def_Objects sdef) (objects_done S)
      \<and> range_order (def_Seed sdef) (seed_keys S)
      \<and> range_order (def_Benchmark sdef) (benchmark_keys S))"

text \<open>
  A member of a labeled set is a node or some other labeled thing (the router builds
  such with \<open>query.NewLabeled\<close>); the assertion \<open>l.(p2plab.Node)\<close> panics on the latter.
\<close>

datatype Labeled = LNode Node | LOther string "string list"

fun Labeled_ID :: "Labeled \<Rightarrow> string" where
  "Labeled_ID (LNode n) = NodeID n"
| "Labeled_ID (LOther i ls) = i"

fun as_Node :: "Labeled \<Rightarrow> Node option" where
  "as_Node (LNode n) = Some n"
| "as_Node (LOther i ls) = None"

text \<open>
  The collaborators of the planner, none of them in the sources at hand: the
  transformers (\<open>ts.Get\<close>, \<open>t.Transform\<close> with the publishing peer fixed), the query engine
  (\<open>query.Parse\<close>, \<open>qry.Match\<close> followed by \<open>Slice()\<close>, \<open>qry.String\<close>) and the action
  resolver (\<open>actions.Parse\<close>, \<open>action.Tasks\<close>). \<open>Transform\<close> stands for the outcome of the
  call in this run.
\<close>

record ('t, 'q, 'a) plan_env =
  ts_Get :: "string \<Rightarrow> error + 't"
  Transform :: "'t \<Rightarrow> string \<Rightarrow> AddOption list \<Rightarrow> error + cid"
  query_Parse :: "string \<Rightarrow> error + 'q"
  Match :: "'q \<Rightarrow> Labeled list \<Rightarrow> error + Labeled list"
  query_String :: "'q \<Rightarrow> string"
  actions_Parse :: "(string \<rightharpoonup> cid) \<Rightarrow> string \<Rightarrow> error + 'a"
  Tasks :: "'a \<Rightarrow> Node list \<Rightarrow> error + (string \<rightharpoonup> Task)"

datatype 'r outcome = Panics | Returns 'r

text \<open>The body of one object goroutine (lines 45-54), up to the write under the mutex.\<close>

definition object_goroutine :: "('t, 'q, 'a) plan_env \<Rightarrow> ObjectDefinition \<Rightarrow> error + cid" where
  "object_goroutine E odef =
     (case ts_Get E (ObjType odef) of
        Inl err \<Rightarrow> Inl err
      | Inr t \<Rightarrow> (let opts = AddOptionsFromDefinition odef in Transform E t (Source odef) opts))"

fun store_object :: "string \<times> (error + cid) \<Rightarrow> (string \<rightharpoonup> cid) \<Rightarrow> (string \<rightharpoonup> cid)" where
  "store_object (name, Inl err) objects = objects"
| "store_object (name, Inr c) objects = objects(name \<mapsto> c)"

text \<open>The seed loop (lines 70-103): the plan as it stands and the error returned, if any.\<close>

fun seed_loop ::
  "('t, 'q, 'a) plan_env \<Rightarrow> Labeled list \<Rightarrow> ScenarioPlan \<Rightarrow> (string \<times> string) list
     \<Rightarrow> (ScenarioPlan \<times> error option) outcome" where
  "seed_loop E lset plan [] = Returns (plan, None)"
| "seed_loop E lset plan ((q, a) # rest) =
     (case query_Parse E q of
        Inl err \<Rightarrow> Returns (plan, Some err)
      | Inr qry \<Rightarrow>
     (case Match E qry lset of
        Inl err \<Rightarrow> Returns (plan, Some err)
      | Inr mset \<Rightarrow>
     (case actions_Parse E (Objects plan) a of
        Inl err \<Rightarrow> Returns (plan, Some err)
      | Inr action \<Rightarrow>
     (case those (map as_Node mset) of
        None \<Rightarrow> Panics
      | Some ns \<Rightarrow>
     (case Tasks E action ns of
        Inl err \<Rightarrow> Returns (plan, Some err)
      | Inr taskMap \<Rightarrow> seed_loop E lset (plan\<lparr>Seed := taskMap\<rparr>) rest)))))"

text \<open>
  The benchmark loop (lines 107-142), with the audit map \<open>queries\<close> it fills before it
  parses the action.
\<close>

fun benchmark_loop ::
  "('t, 'q, 'a) plan_env \<Rightarrow> Labeled list \<Rightarrow> ScenarioPlan \<Rightarrow> (string \<rightharpoonup> string list)
     \<Rightarrow> (string \<times> string) list
     \<Rightarrow> (ScenarioPlan \<times> (string \<rightharpoonup> string list) \<times> error option) outcome" where
  "benchmark_loop E lset plan queries [] = Returns (plan, queries, None)"
| "benchmark_loop E lset plan queries ((q, a) # rest) =
     (case query_Parse E q of
        Inl err \<Rightarrow> Returns (plan, queries, Some err)
      | Inr qry \<Rightarrow>
     (case Match E qry lset of
        Inl err \<Rightarrow> Returns (plan, queries, Some err)
      | Inr mset \<Rightarrow>
     (let ids = map Labeled_ID mset;
          queries = queries(query_String E qry \<mapsto> ids)
      in case actions_Parse E (Objects plan) a of
        Inl err \<Rightarrow> Returns (plan, queries, Some err)
      | Inr action \<Rightarrow>
     (case those (map as_Node mset) of
        None \<Rightarrow> Panics
      | Some ns \<Rightarrow>
     (case Tasks E action ns of
        Inl err \<Rightarrow> Returns (plan, queries, Some err)
      | Inr taskMap \<Rightarrow> benchmark_loop E lset (plan\<lparr>Benchmark := taskMap\<rparr>) queries rest)))))"

text \<open>
  Object materialization (lines 38-64): the goroutines in their order of completion, the
  objects map their writes under the mutex leave, and the error \<open>Wait\<close> returns. \<open>Wait\<close>
  returns once all of them are done.
\<close>

definition objects_ran ::
  "('t, 'q, 'a) plan_env \<Rightarrow> plan_sched \<Rightarrow> ScenarioDefinition \<Rightarrow> (string \<times> (error + cid)) list" where
  "objects_ran E S sdef =
     map (\<lambda>(name, odef). (name, object_goroutine E odef))
       (range_entries (def_Objects sdef) (objects_done S))"

definition materialize ::
  "('t, 'q, 'a) plan_env \<Rightarrow> plan_sched \<Rightarrow> ScenarioDefinition
     \<Rightarrow> (string \<rightharpoonup> cid) \<Rightarrow> (string \<rightharpoonup> cid) \<times> error option" where
  "materialize E S sdef objects =
     (fold store_object (objects_ran E S sdef) objects,
      first_error (map (\<lambda>(name, r). err_of r) (objects_ran E S sdef)))"

text \<open>\<open>Plan\<close> returns \<open>(plan, queries, err)\<close>; \<open>queries\<close> is \<open>None\<close> for the nil map.\<close>

definition Plan ::
  "('t, 'q, 'a) plan_env \<Rightarrow> plan_sched \<Rightarrow> ScenarioDefinition \<Rightarrow> Labeled list
     \<Rightarrow> (ScenarioPlan \<times> (string \<rightharpoonup> string list) option \<times> error option) outcome" where
  "Plan E S sdef lset =
     (let plan = \<lparr>Objects = Map.empty, Seed = Map.empty, Benchmark = Map.empty\<rparr>;
          (objects, err) = materialize E S sdef (Objects plan);
          plan = plan\<lparr>Objects := objects\<rparr>
      in case err of
           Some err \<Rightarrow> Returns (plan, None, Some err)
         | None \<Rightarrow>
        (case seed_loop E lset plan (range_entries (def_Seed sdef) (seed_keys S)) of
           Panics \<Rightarrow> Panics
         | Returns (plan, Some err) \<Rightarrow> Returns (plan, None, Some err)
         | Returns (plan, None) \<Rightarrow>
        (case benchmark_loop E lset plan Map.empty
                (range_entries (def_Benchmark sdef) (benchmark_keys S)) of
           Panics \<Rightarrow> Panics
         | Returns (plan, queries, Some err) \<Rightarrow> Returns (plan, None, Some err)
         | Returns (plan, queries, None) \<Rightarrow> Returns (plan, Some queries, None))))"

section \<open>labd: the benchmark router\<close>

text \<open>
  The records of \<open>metadata\<close> as the handler uses them. The benchmark's field \<open>Plan\<close> is
  \<open>BenchmarkPlan\<close> here, an execution's \<open>Report\<close> is \<open>ExecReport\<close>. The store is a value
  of any type \<open>'db\<close>; its operations, the node reset, the plan executor, the aggregator,
  the seeder's host, the environment variable and the clock are the environment. Times
  are integers (nanoseconds).
\<close>

datatype BenchmarkStatus = BenchmarkRunning | BenchmarkDone

record Scenario =
  ScenarioID :: string
  Definition :: ScenarioDefinition

record Cluster =
  ClusterID :: string

record Benchmark =
  ID :: string
  Status :: BenchmarkStatus
  Cluster :: Cluster
  Scenario :: Scenario
  BenchmarkPlan :: ScenarioPlan
  Labels :: "string list"

record ReportSummary =
  TotalTime :: int
  Trace :: string

record ('r, 'g) Report =
  Summary :: ReportSummary
  Nodes :: 'r
  Queries :: "(string \<rightharpoonup> string list) option"
  Aggregates :: 'g

record 'r Execution =
  Start :: int
  End :: int
  ExecReport :: 'r
  Span :: "string option"

record ('db, 'r, 'g) router_env =
  GetScenario :: "'db \<Rightarrow> string \<Rightarrow> error + Scenario"
  GetCluster :: "'db \<Rightarrow> string \<Rightarrow> error + Cluster"
  ListNodes :: "'db \<Rightarrow> string \<Rightarrow> error + Node list"
  CreateBenchmark :: "'db \<Rightarrow> Benchmark \<Rightarrow> error + 'db \<times> Benchmark"
  CreateReport :: "'db \<Rightarrow> string \<Rightarrow> ('r, 'g) Report \<Rightarrow> error + 'db"
  UpdateBenchmark :: "'db \<Rightarrow> Benchmark \<Rightarrow> error + 'db \<times> Benchmark"
  nodes_Update :: "Node list \<Rightarrow> error option"
  scenarios_Run :: "Labeled list \<Rightarrow> ScenarioPlan \<Rightarrow> string list \<Rightarrow> error + 'r Execution"
  ComputeAggregates :: "'r \<Rightarrow> 'g"
  seeder_Addrs :: "string list"
  seeder_ID :: string
  JAEGER_UI :: string
  UnixNano :: int

text \<open>\<open>strconv.ParseBool\<close>, and the decimal rendering of \<open>%d\<close>.\<close>

definition ParseBool :: "string \<Rightarrow> error + bool" where
  "ParseBool str =
     (if str \<in> set [''1'', ''t'', ''T'', ''TRUE'', ''true'', ''True''] then Inr True
      else if str \<in> set [''0'', ''f'', ''F'', ''FALSE'', ''false'', ''False''] then Inr False
      else Inl (Opaque ''invalid syntax''))"

definition digit_char :: "nat \<Rightarrow> char" where
  "digit_char d = ''0123456789'' ! d"

fun digits :: "nat \<Rightarrow> string" where
  "digits n = (if n < 10 then [digit_char n] else digits (n div 10) @ [digit_char (n mod 10)])"

declare digits.simps [simp del]

definition FormatInt :: "int \<Rightarrow> string" where
  "FormatInt i = (if i < 0 then ''-'' @ digits (nat (- i)) else digits (nat i))"

text \<open>
  Modelled from the spec: \<open>metadata.DB.Update\<close>, the store's transaction, is not in the
  sources at hand. The spec asks for one atomic multi-write transaction in which both
  writes succeed or both are rolled back: the function runs on the store; when it returns
  nil its writes are kept, when it returns an error they are dropped and the error is
  returned.
\<close>

definition db_Update :: "'db \<Rightarrow> ('db \<Rightarrow> 'db \<times> error option) \<Rightarrow> 'db \<times> error option" where
  "db_Update db fn = (case fn db of (tx, None) \<Rightarrow> (tx, None) | (tx, Some err) \<Rightarrow> (db, Some err))"

text \<open>
  What \<open>postBenchmarksCreate\<close> has computed when it reaches line 163: the request's
  scenario and cluster ids, the benchmark id, the scenario and the cluster fetched, the
  labeled set, and the plan with its audit map.
\<close>

record prepared =
  p_sid :: string
  p_cid :: string
  p_bid :: string
  p_scenario :: Scenario
  p_cluster :: Cluster
  p_lset :: "Labeled list"
  p_plan :: ScenarioPlan
  p_queries :: "(string \<rightharpoonup> string list) option"

text \<open>Lines 145-155: unless skipped, reset the nodes, then connect them.\<close>

definition reset_and_connect ::
  "('db, 'r, 'g) router_env \<Rightarrow> connect_env \<Rightarrow> fanout \<Rightarrow> fanout \<Rightarrow> bool \<Rightarrow> Node list
     \<Rightarrow> error option" where
  "reset_and_connect R C F1 F2 noReset ns =
     (if \<not> noReset then
        (case nodes_Update R ns of
           Some err \<Rightarrow> Some (Wrap err ''failed to update cluster'')
         | None \<Rightarrow>
        (case fst (Connect C F1 F2 ns) of
           Some err \<Rightarrow> Some (Wrap err ''failed to connect cluster'')
         | None \<Rightarrow> None))
      else None)"

text \<open>
  Lines 102-161. \<open>r\<close> is \<open>r.FormValue\<close>; the response header and the logger are not
  modelled.
\<close>

definition prepare ::
  "('db, 'r, 'g) router_env \<Rightarrow> ('t, 'q, 'a) plan_env \<Rightarrow> connect_env \<Rightarrow> fanout \<Rightarrow> fanout
     \<Rightarrow> plan_sched \<Rightarrow> (string \<Rightarrow> string) \<Rightarrow> 'db \<Rightarrow> (error + prepared) outcome" where
  "prepare R P C F1 F2 S r db =
     (case (if r ''no-reset'' \<noteq> [] then ParseBool (r ''no-reset'') else Inr False) of
        Inl err \<Rightarrow> Returns (Inl err)
      | Inr noReset \<Rightarrow>
     (let sid = r ''scenario'' in
      case GetScenario R db sid of
        Inl err \<Rightarrow> Returns (Inl err)
      | Inr scenario \<Rightarrow>
     (let cid = r ''cluster'' in
      case GetCluster R db cid of
        Inl err \<Rightarrow> Returns (Inl err)
      | Inr cluster \<Rightarrow>
     (let bid = cid @ ''-'' @ sid @ ''-'' @ FormatInt (UnixNano R) in
      case ListNodes R db cid of
        Inl err \<Rightarrow> Returns (Inl err)
      | Inr mns \<Rightarrow>
     (let ns = mns; lset = map LNode mns in
      case reset_and_connect R C F1 F2 noReset ns of
        Some err \<Rightarrow> Returns (Inl err)
      | None \<Rightarrow>
     (case Plan P S (Definition scenario) lset of
        Panics \<Rightarrow> Panics
      | Returns (plan, queries, Some err) \<Rightarrow>
          Returns (Inl (Wrap err ''failed to create scenario plan''))
      | Returns (plan, queries, None) \<Rightarrow>
          Returns (Inr \<lparr>p_sid = sid, p_cid = cid, p_bid = bid, p_scenario = scenario,
                        p_cluster = cluster, p_lset = lset, p_plan = plan,
                        p_queries = queries\<rparr>)))))))"

text \<open>Lines 163-174.\<close>

definition new_benchmark :: "prepared \<Rightarrow> Benchmark" where
  "new_benchmark p =
     \<lparr>ID = p_bid p, Status = BenchmarkRunning, Cluster = p_cluster p, Scenario = p_scenario p,
      BenchmarkPlan = p_plan p, Labels = [p_bid p, p_cid p, p_sid p]\<rparr>"

text \<open>Lines 193-208. \<open>Span\<close> is the trace id when the span's context is Jaeger's.\<close>

definition make_report ::
  "('db, 'r, 'g) router_env \<Rightarrow> 'r Execution \<Rightarrow> (string \<rightharpoonup> string list) option \<Rightarrow> ('r, 'g) Report" where
  "make_report R execution queries =
     (let report = \<lparr>Summary = \<lparr>TotalTime = End execution - Start execution, Trace = []\<rparr>,
                     Nodes = ExecReport execution, Queries = queries,
                     Aggregates = ComputeAggregates R (ExecReport execution)\<rparr>;
          jaegerUI = JAEGER_UI R
      in if jaegerUI \<noteq> [] then
           (case Span execution of
              Some traceID \<Rightarrow>
                report\<lparr>Summary := (Summary report)\<lparr>Trace := jaegerUI @ ''/trace/'' @ traceID\<rparr>\<rparr>
            | None \<Rightarrow> report)
         else report)"

text \<open>Lines 211-229: the final persistence step, one transaction.\<close>

definition persist_done ::
  "('db, 'r, 'g) router_env \<Rightarrow> 'db \<Rightarrow> Benchmark \<Rightarrow> ('r, 'g) Report \<Rightarrow> 'db \<times> error option" where
  "persist_done R db benchmark report =
     db_Update db (\<lambda>tx.
       case CreateReport R tx (ID benchmark) report of
         Inl err \<Rightarrow> (tx, Some (Wrap err ''failed to create report''))
       | Inr tx \<Rightarrow>
          (let benchmark = benchmark\<lparr>Status := BenchmarkDone\<rparr> in
           case UpdateBenchmark R tx benchmark of
             Inl err \<Rightarrow> (tx, Some (Wrap err ''failed to update benchmark''))
           | Inr (tx, updated) \<Rightarrow> (tx, None)))"

text \<open>
  Lines 177-231, from the result of \<open>CreateBenchmark\<close> on: execute the plan, assemble
  the report, persist.
\<close>

definition run_and_persist ::
  "('db, 'r, 'g) router_env \<Rightarrow> 'db \<Rightarrow> prepared \<Rightarrow> error + 'db \<times> Benchmark \<Rightarrow> 'db \<times> error option" where
  "run_and_persist R db p created =
     (case created of
        Inl err \<Rightarrow> (db, Some err)
      | Inr (db, benchmark) \<Rightarrow>
     (let seederAddrs = map (\<lambda>addr. addr @ ''/p2p/'' @ seeder_ID R) (seeder_Addrs R) in
      case scenarios_Run R (p_lset p) (p_plan p) seederAddrs of
        Inl err \<Rightarrow> (db, Some (Wrap err ''failed to run scenario plan''))
      | Inr execution \<Rightarrow> persist_done R db benchmark (make_report R execution (p_queries p))))"

text \<open>The handler: the store it leaves and the error it returns.\<close>

definition postBenchmarksCreate ::
  "('db, 'r, 'g) router_env \<Rightarrow> ('t, 'q, 'a) plan_env \<Rightarrow> connect_env \<Rightarrow> fanout \<Rightarrow> fanout
     \<Rightarrow> plan_sched \<Rightarrow> (string \<Rightarrow> string) \<Rightarrow> 'db \<Rightarrow> ('db \<times> error option) outcome" where
  "postBenchmarksCreate R P C F1 F2 S r db =
     (case prepare R P C F1 F2 S r db of
        Panics \<Rightarrow> Panics
      | Returns (Inl err) \<Rightarrow> Returns (db, Some err)
      | Returns (Inr p) \<Rightarrow>
          Returns (run_and_persist R db p (CreateBenchmark R db (new_benchmark p))))"

section \<open>What one loop iteration computes\<close>

text \<open>
  Two readings of the loop bodies, used to state the properties. \<open>entry_tasks\<close> is the
  task map one \<open>(query, action)\<close> entry yields (lines 71-100, and again 108-139), given
  the objects map of the plan; \<open>recorded\<close> is what the benchmark loop writes into the
  audit map for a query (lines 108-124): its canonical string and the matched identifiers.
\<close>

definition entry_tasks ::
  "('t, 'q, 'a) plan_env \<Rightarrow> Labeled list \<Rightarrow> (string \<rightharpoonup> cid) \<Rightarrow> string \<times> string
     \<Rightarrow> (error + (string \<rightharpoonup> Task)) outcome" where
  "entry_tasks E lset objects qa =
     (case query_Parse E (fst qa) of
        Inl err \<Rightarrow> Returns (Inl err)
      | Inr qry \<Rightarrow>
     (case Match E qry lset of
        Inl err \<Rightarrow> Returns (Inl err)
      | Inr mset \<Rightarrow>
     (case actions_Parse E objects (snd qa) of
        Inl err \<Rightarrow> Returns (Inl err)
      | Inr action \<Rightarrow>
     (case those (map as_Node mset) of
        None \<Rightarrow> Panics
      | Some ns \<Rightarrow> Returns (Tasks E action ns)))))"

definition recorded :: "('t, 'q, 'a) plan_env \<Rightarrow> Labeled list \<Rightarrow> string \<Rightarrow> (string \<times> string list) option" where
  "recorded E lset q =
     (case query_Parse E q of
        Inl err \<Rightarrow> None
      | Inr qry \<Rightarrow>
     (case Match E qry lset of
        Inl err \<Rightarrow> None
      | Inr mset \<Rightarrow> Some (query_String E qry, map Labeled_ID mset)))"

text \<open>
  The contract of \<open>Query.String\<close> on a set of query expressions: expressions with one
  canonical string match the same entities.
\<close>

definition canonical :: "('t, 'q, 'a) plan_env \<Rightarrow> Labeled list \<Rightarrow> string set \<Rightarrow> bool" where
  "canonical E lset qs =
     (\<forall>q \<in> qs. \<forall>q' \<in> qs. \<forall>s ids ids'.
        recorded E lset q = Some (s, ids) \<longrightarrow> recorded E lset q' = Some (s, ids') \<longrightarrow> ids = ids')"

section \<open>A sample cluster and scenario\<close>

text \<open>
  The concrete inputs of the checks below: three nodes, \<open>A\<close> and \<open>B\<close> labeled
  \<open>role=x\<close>, \<open>C\<close> labeled \<open>role=y\<close>; a query engine whose queries are single labels;
  an action resolver that gives every node it is handed the task named by the action; a
  scenario with one object, the seed entries \<open>role=x\<close> to \<open>taskFoo\<close> and \<open>role=y\<close> to
  \<open>taskBar\<close>, and one benchmark entry.
\<close>

definition nodeA :: Node where
  "nodeA = \<lparr>NodeID = ''A'', Address = ''10.0.0.1'', NodeLabels = [''role=x'']\<rparr>"

definition nodeB :: Node where
  "nodeB = \<lparr>NodeID = ''B'', Address = ''10.0.0.2'', NodeLabels = [''role=x'']\<rparr>"

definition nodeC :: Node where
  "nodeC = \<lparr>NodeID = ''C'', Address = ''10.0.0.3'', NodeLabels = [''role=y'']\<rparr>"

fun Labeled_labels :: "Labeled \<Rightarrow> string list" where
  "Labeled_labels (LNode n) = NodeLabels n"
| "Labeled_labels (LOther i ls) = ls"

definition taskOf :: "string \<Rightarrow> Task" where
  "taskOf a = \<lparr>Type = TaskOther a, Subject = []\<rparr>"

definition sample_env :: "(string, string, string) plan_env" where
  "sample_env =
     \<lparr>ts_Get = (\<lambda>t. if t = ''unixfs'' then Inr t else Inl (Opaque ''unknown transformer'')),
      Transform = (\<lambda>t src opts. Inr (''cid-of-'' @ src)),
      query_Parse = (\<lambda>q. if q = [] then Inl (Opaque ''empty query'') else Inr q),
      Match = (\<lambda>qry lset. Inr (filter (\<lambda>l. qry \<in> set (Labeled_labels l)) lset)),
      query_String = (\<lambda>qry. qry),
      actions_Parse = (\<lambda>objects a. Inr a),
      Tasks = (\<lambda>action ns. Inr (map_of (map (\<lambda>n. (NodeID n, taskOf action)) ns)))\<rparr>"

definition sample_lset :: "Labeled list" where
  "sample_lset = [LNode nodeA, LNode nodeB, LNode nodeC]"

definition sample_object :: ObjectDefinition where
  "sample_object = \<lparr>ObjType = ''unixfs'', Source = ''image'', Layout = [], Chunker = [],
                     RawLeaves = False, HashFunc = []\<rparr>"

definition sample_sdef :: ScenarioDefinition where
  "sample_sdef =
     \<lparr>def_Objects = map_of [(''data'', sample_object)],
      def_Seed = map_of [(''role=x'', ''taskFoo''), (''role=y'', ''taskBar'')],
      def_Benchmark = map_of [(''role=y'', ''taskBar'')]\<rparr>"

text \<open>Two runs: the range over the seed map yields \<open>role=x\<close> first, or \<open>role=y\<close> first.\<close>

definition x_then_y :: plan_sched where
  "x_then_y = \<lparr>objects_done = [''data''], seed_keys = [''role=x'', ''role=y''],
                benchmark_keys = [''role=y'']\<rparr>"

definition y_then_x :: plan_sched where
  "y_then_x = \<lparr>objects_done = [''data''], seed_keys = [''role=y'', ''role=x''],
                benchmark_keys = [''role=y'']\<rparr>"

text \<open>
  The remote side for \<open>Connect\<close>: every node answers with one address, or \<open>A\<close> answers
  with none; every \<open>Run\<close> succeeds. Two schedules of a spawning loop over \<open>n\<close> nodes:
  every goroutine runs at once, in its own iteration; or every goroutine runs after the
  loop has ended, as happens when spawning is quicker than starting.
\<close>

definition reachable :: "Node \<Rightarrow> error + PeerInfo" where
  "reachable n = Inr \<lparr>PeerID = ''Qm'' @ NodeID n, Addrs = [''/ip4/'' @ Address n @ ''/tcp/4001'']\<rparr>"

definition all_reachable :: connect_env where
  "all_reachable = \<lparr>PeerInfo_of = reachable, Run = (\<lambda>n task. None)\<rparr>"

definition A_without_address :: connect_env where
  "A_without_address =
     \<lparr>PeerInfo_of = (\<lambda>n. if NodeID n = ''A'' then Inr \<lparr>PeerID = ''QmA'', Addrs = []\<rparr> else reachable n),
      Run = (\<lambda>n task. None)\<rparr>"

definition after_loop :: "nat \<Rightarrow> fanout" where
  "after_loop n = \<lparr>reads = (\<lambda>k. n - 1), finish = [0..<n]\<rparr>"

definition at_once :: "nat \<Rightarrow> fanout" where
  "at_once n = \<lparr>reads = (\<lambda>k. k), finish = [0..<n]\<rparr>"

definition connect_task :: "string \<Rightarrow> Task" where
  "connect_task subject = \<lparr>Type = TaskConnect, Subject = subject\<rparr>"

text \<open>The plans and the audit map of the two runs.\<close>

definition x_then_y_plan :: ScenarioPlan where
  "x_then_y_plan =
     \<lparr>Objects = [''data'' \<mapsto> ''cid-of-image''],
      Seed = [''C'' \<mapsto> taskOf ''taskBar''],
      Benchmark = [''C'' \<mapsto> taskOf ''taskBar'']\<rparr>"

definition y_then_x_plan :: ScenarioPlan where
  "y_then_x_plan =
     \<lparr>Objects = [''data'' \<mapsto> ''cid-of-image''],
      Seed = [''B'' \<mapsto> taskOf ''taskFoo'', ''A'' \<mapsto> taskOf ''taskFoo''],
      Benchmark = [''C'' \<mapsto> taskOf ''taskBar'']\<rparr>"

definition sample_audit :: "string \<rightharpoonup> string list" where
  "sample_audit = [''role=y'' \<mapsto> [''C'']]"

text \<open>
  Two scenarios that fail: one with a second object of a type no transformer handles,
  one whose second benchmark query does not parse.
\<close>

definition unknown_type_sdef :: ScenarioDefinition where
  "unknown_type_sdef =
     sample_sdef\<lparr>def_Objects :=
       map_of [(''data'', sample_object), (''layer'', sample_object\<lparr>ObjType := ''tarball''\<rparr>)]\<rparr>"

definition data_then_layer :: plan_sched where
  "data_then_layer = x_then_y\<lparr>objects_done := [''data'', ''layer'']\<rparr>"

definition unparsable_sdef :: ScenarioDefinition where
  "unparsable_sdef =
     sample_sdef\<lparr>def_Benchmark := map_of [(''role=y'', ''taskBar''), ([], ''taskFoo'')]\<rparr>"

definition y_then_empty :: plan_sched where
  "y_then_empty = x_then_y\<lparr>benchmark_keys := [''role=y'', []]\<rparr>"

text \<open>
  A store for the checks: the benchmark records and the reports, newest first. Its
  operations always succeed; three variants fail in plan execution, in the benchmark
  update and in the report creation. The request names scenario \<open>s1\<close> and cluster
  \<open>c1\<close> and does not skip the reset.
\<close>

record store =
  benchmarks :: "Benchmark list"
  reports :: "(string \<times> (string, string) Report) list"

definition empty_store :: store where
  "empty_store = \<lparr>benchmarks = [], reports = []\<rparr>"

definition sample_scenario :: Scenario where
  "sample_scenario = \<lparr>ScenarioID = ''s1'', Definition = sample_sdef\<rparr>"

definition sample_cluster :: Cluster where
  "sample_cluster = \<lparr>ClusterID = ''c1''\<rparr>"

definition sample_execution :: "string Execution" where
  "sample_execution = \<lparr>Start = 1000, End = 4500, ExecReport = ''per-node results'', Span = None\<rparr>"

definition sample_router :: "(store, string, string) router_env" where
  "sample_router =
     \<lparr>GetScenario = (\<lambda>db sid. if sid = ''s1'' then Inr sample_scenario
                                else Inl (Opaque ''scenario not found'')),
      GetCluster = (\<lambda>db cid. if cid = ''c1'' then Inr sample_cluster
                               else Inl (Opaque ''cluster not found'')),
      ListNodes = (\<lambda>db cid. Inr [nodeA, nodeB, nodeC]),
      CreateBenchmark = (\<lambda>db b. Inr (db\<lparr>benchmarks := b # benchmarks db\<rparr>, b)),
      CreateReport = (\<lambda>db bid report. Inr (db\<lparr>reports := (bid, report) # reports db\<rparr>)),
      UpdateBenchmark = (\<lambda>db b.
         Inr (db\<lparr>benchmarks := map (\<lambda>x. if ID x = ID b then b else x) (benchmarks db)\<rparr>, b)),
      nodes_Update = (\<lambda>ns. None),
      scenarios_Run = (\<lambda>lset plan seederAddrs. Inr sample_execution),
      ComputeAggregates = (\<lambda>nodes. ''aggregates''),
      seeder_Addrs = [''/ip4/10.0.0.9/tcp/4001''],
      seeder_ID = ''QmSeeder'',
      JAEGER_UI = [],
      UnixNano = 1572566400000000123\<rparr>"

definition failing_run :: "(store, string, string) router_env" where
  "failing_run = sample_router\<lparr>scenarios_Run := (\<lambda>lset plan seederAddrs. Inl (Opaque ''node B timed out''))\<rparr>"

definition failing_update :: "(store, string, string) router_env" where
  "failing_update = sample_router\<lparr>UpdateBenchmark := (\<lambda>db b. Inl (Opaque ''bucket is read-only''))\<rparr>"

definition failing_report :: "(store, string, string) router_env" where
  "failing_report = sample_router\<lparr>CreateReport := (\<lambda>db bid report. Inl (Opaque ''report exists''))\<rparr>"

definition sample_request :: "string \<Rightarrow> string" where
  "sample_request key =
     (if key = ''scenario'' then ''s1'' else if key = ''cluster'' then ''c1'' else [])"

definition sample_prepared :: prepared where
  "sample_prepared =
     \<lparr>p_sid = ''s1'', p_cid = ''c1'', p_bid = ''c1-s1-1572566400000000123'',
      p_scenario = sample_scenario, p_cluster = sample_cluster, p_lset = sample_lset,
      p_plan = x_then_y_plan, p_queries = Some sample_audit\<rparr>"

definition sample_report :: "(string, string) Report" where
  "sample_report =
     \<lparr>Summary = \<lparr>TotalTime = 3500, Trace = []\<rparr>, Nodes = ''per-node results'',
      Queries = Some sample_audit, Aggregates = ''aggregates''\<rparr>"

definition running_store :: store where
  "running_store = \<lparr>benchmarks = [new_benchmark sample_prepared], reports = []\<rparr>"

definition done_store :: store where
  "done_store =
     \<lparr>benchmarks = [(new_benchmark sample_prepared)\<lparr>Status := BenchmarkDone\<rparr>],
      reports = [(''c1-s1-1572566400000000123'', sample_report)]\<rparr>"

section \<open>Lemmas on the loops\<close>

lemma first_error_None: "first_error rs = None \<longleftrightarrow> (\<forall>r \<in> set rs. r = None)"
  by (induction rs rule: first_error.induct) auto

lemma first_error_Some: "first_error rs = Some e \<Longrightarrow> Some e \<in> set rs"
  by (induction rs rule: first_error.induct) auto

lemma range_entries_eq:
  "set ks \<subseteq> dom m \<Longrightarrow> range_entries m ks = map (\<lambda>k. (k, the (m k))) ks"
  by (induction ks) (auto simp: range_entries_def List.map_filter_def)

lemma seed_loop_Cons:
  "seed_loop E lset plan (qa # rest) =
     (case entry_tasks E lset (Objects plan) qa of
        Panics \<Rightarrow> Panics
      | Returns (Inl err) \<Rightarrow> Returns (plan, Some err)
      | Returns (Inr taskMap) \<Rightarrow> seed_loop E lset (plan\<lparr>Seed := taskMap\<rparr>) rest)"
  by (cases qa) (simp add: entry_tasks_def split: sum.splits option.splits)


declare seed_loop.simps(2) [simp del]

lemma seed_loop_step:
  assumes "seed_loop E lset plan (qa # rest) = Returns (plan', err)"
  shows "(\<exists>e. entry_tasks E lset (Objects plan) qa = Returns (Inl e) \<and> plan' = plan \<and> err = Some e)
       \<or> (\<exists>taskMap. entry_tasks E lset (Objects plan) qa = Returns (Inr taskMap)
             \<and> seed_loop E lset (plan\<lparr>Seed := taskMap\<rparr>) rest = Returns (plan', err))"
  using assms by (simp add: seed_loop_Cons split: outcome.splits sum.splits)

lemma seed_loop_frame:
  "seed_loop E lset plan kvs = Returns (plan', err) \<Longrightarrow>
     Objects plan' = Objects plan \<and> Benchmark plan' = Benchmark plan"
proof (induction kvs arbitrary: plan)
  case Nil
  then show ?case by simp
next
  case (Cons qa rest)
  from seed_loop_step [OF Cons.prems] show ?case
  proof
    assume "\<exists>e. entry_tasks E lset (Objects plan) qa = Returns (Inl e) \<and> plan' = plan \<and> err = Some e"
    then show ?thesis by blast
  next
    assume "\<exists>taskMap. entry_tasks E lset (Objects plan) qa = Returns (Inr taskMap)
             \<and> seed_loop E lset (plan\<lparr>Seed := taskMap\<rparr>) rest = Returns (plan', err)"
    then obtain taskMap where "seed_loop E lset (plan\<lparr>Seed := taskMap\<rparr>) rest = Returns (plan', err)"
      by blast
    from Cons.IH [OF this] show ?thesis by simp
  qed
qed

lemma seed_loop_last:
  "seed_loop E lset plan kvs = Returns (plan', None) \<Longrightarrow> kvs \<noteq> [] \<Longrightarrow>
     entry_tasks E lset (Objects plan) (last kvs) = Returns (Inr (Seed plan'))"
proof (induction kvs arbitrary: plan)
  case Nil
  then show ?case by simp
next
  case (Cons qa rest)
  from seed_loop_step [OF Cons.prems(1)] obtain taskMap where
    e: "entry_tasks E lset (Objects plan) qa = Returns (Inr taskMap)" and
    r: "seed_loop E lset (plan\<lparr>Seed := taskMap\<rparr>) rest = Returns (plan', None)"
    by auto
  show ?case
  proof (cases "rest = []")
    case True
    with r e show ?thesis by auto
  next
    case False
    with Cons.IH [OF r] show ?thesis by simp
  qed
qed

lemma seed_loop_all:
  "seed_loop E lset plan kvs = Returns (plan', None) \<Longrightarrow> qa \<in> set kvs \<Longrightarrow>
     \<exists>taskMap. entry_tasks E lset (Objects plan) qa = Returns (Inr taskMap)"
proof (induction kvs arbitrary: plan)
  case Nil
  then show ?case by simp
next
  case (Cons x rest)
  from seed_loop_step [OF Cons.prems(1)] obtain taskMap where
    e: "entry_tasks E lset (Objects plan) x = Returns (Inr taskMap)" and
    r: "seed_loop E lset (plan\<lparr>Seed := taskMap\<rparr>) rest = Returns (plan', None)"
    by auto
  show ?case
  proof (cases "qa = x")
    case True
    with e show ?thesis by blast
  next
    case False
    with Cons.prems(2) have "qa \<in> set rest" by simp
    from Cons.IH [OF r this] show ?thesis by simp
  qed
qed

lemma benchmark_loop_Cons:
  "benchmark_loop E lset plan queries (qa # rest) =
     (case recorded E lset (fst qa) of
        None \<Rightarrow> (case entry_tasks E lset (Objects plan) qa of
                   Returns (Inl err) \<Rightarrow> Returns (plan, queries, Some err)
                 | _ \<Rightarrow> Panics)
      | Some (s, ids) \<Rightarrow>
        (case entry_tasks E lset (Objects plan) qa of
           Panics \<Rightarrow> Panics
         | Returns (Inl err) \<Rightarrow> Returns (plan, queries(s \<mapsto> ids), Some err)
         | Returns (Inr taskMap) \<Rightarrow>
             benchmark_loop E lset (plan\<lparr>Benchmark := taskMap\<rparr>) (queries(s \<mapsto> ids)) rest))"
proof (cases qa)
  case (Pair q a)
  show ?thesis
  proof (cases "query_Parse E q")
    case (Inl err)
    with Pair show ?thesis by (simp add: entry_tasks_def recorded_def)
  next
    case qry: (Inr qry)
    show ?thesis
    proof (cases "Match E qry lset")
      case (Inl err)
      with Pair qry show ?thesis by (simp add: entry_tasks_def recorded_def)
    next
      case mset: (Inr mset)
      show ?thesis
      proof (cases "actions_Parse E (Objects plan) a")
        case (Inl err)
        with Pair qry mset show ?thesis by (simp add: entry_tasks_def recorded_def)
      next
        case action: (Inr action)
        show ?thesis
        proof (cases "those (map as_Node mset)")
          case None
          with Pair qry mset action show ?thesis by (simp add: entry_tasks_def recorded_def)
        next
          case (Some ns)
          with Pair qry mset action show ?thesis
            by (cases "Tasks E action ns") (simp_all add: entry_tasks_def recorded_def)
        qed
      qed
    qed
  qed
qed

declare benchmark_loop.simps(2) [simp del]

lemma benchmark_loop_step:
  assumes "benchmark_loop E lset plan queries (qa # rest) = Returns (plan', queries', None)"
  shows "\<exists>s ids taskMap. recorded E lset (fst qa) = Some (s, ids)
           \<and> entry_tasks E lset (Objects plan) qa = Returns (Inr taskMap)
           \<and> benchmark_loop E lset (plan\<lparr>Benchmark := taskMap\<rparr>) (queries(s \<mapsto> ids)) rest
                = Returns (plan', queries', None)"
proof (cases "recorded E lset (fst qa)")
  case None
  with assms show ?thesis
    by (cases "entry_tasks E lset (Objects plan) qa")
       (auto simp: benchmark_loop_Cons split: sum.splits)
next
  case (Some r)
  obtain s ids where r: "r = (s, ids)" by (cases r)
  show ?thesis
  proof (cases "entry_tasks E lset (Objects plan) qa")
    case Panics
    with assms Some r show ?thesis by (simp add: benchmark_loop_Cons)
  next
    case (Returns t)
    with assms Some r show ?thesis by (cases t) (simp_all add: benchmark_loop_Cons)
  qed
qed

lemma benchmark_loop_fail:
  assumes "benchmark_loop E lset plan queries (qa # rest) = Returns (plan', queries', err)"
  shows "plan' = plan \<or> (\<exists>taskMap q. benchmark_loop E lset (plan\<lparr>Benchmark := taskMap\<rparr>) q rest
                = Returns (plan', queries', err))"
proof (cases "entry_tasks E lset (Objects plan) qa")
  case Panics
  with assms show ?thesis
    by (cases "recorded E lset (fst qa)") (auto simp: benchmark_loop_Cons)
next
  case (Returns t)
  show ?thesis
  proof (cases t)
    case (Inl e)
    with assms Returns show ?thesis
      by (cases "recorded E lset (fst qa)") (auto simp: benchmark_loop_Cons)
  next
    case (Inr taskMap)
    with assms Returns show ?thesis
      by (cases "recorded E lset (fst qa)") (auto simp: benchmark_loop_Cons)
  qed
qed

lemma benchmark_loop_frame:
  "benchmark_loop E lset plan queries kvs = Returns (plan', queries', err) \<Longrightarrow>
     Objects plan' = Objects plan \<and> Seed plan' = Seed plan"
proof (induction kvs arbitrary: plan queries)
  case Nil
  then show ?case by simp
next
  case (Cons qa rest)
  from benchmark_loop_fail [OF Cons.prems] show ?case
  proof
    assume "plan' = plan"
    then show ?thesis by simp
  next
    assume "\<exists>taskMap q. benchmark_loop E lset (plan\<lparr>Benchmark := taskMap\<rparr>) q rest
                = Returns (plan', queries', err)"
    then obtain taskMap q where
      "benchmark_loop E lset (plan\<lparr>Benchmark := taskMap\<rparr>) q rest = Returns (plan', queries', err)"
      by blast
    from Cons.IH [OF this] show ?thesis by simp
  qed
qed

lemma benchmark_loop_records:
  "benchmark_loop E lset plan queries kvs = Returns (plan', queries', None) \<Longrightarrow>
     \<exists>recs. map (\<lambda>qa. recorded E lset (fst qa)) kvs = map Some recs
        \<and> queries' = fold (\<lambda>(s, ids) m. m(s \<mapsto> ids)) recs queries"
proof (induction kvs arbitrary: plan queries)
  case Nil
  then show ?case by simp
next
  case (Cons qa rest)
  from benchmark_loop_step [OF Cons.prems] obtain s ids taskMap where
    r: "recorded E lset (fst qa) = Some (s, ids)" and
    rest: "benchmark_loop E lset (plan\<lparr>Benchmark := taskMap\<rparr>) (queries(s \<mapsto> ids)) rest
             = Returns (plan', queries', None)"
    by blast
  from Cons.IH [OF rest] obtain recs where
    "map (\<lambda>qa. recorded E lset (fst qa)) rest = map Some recs"
    "queries' = fold (\<lambda>(s, ids) m. m(s \<mapsto> ids)) recs (queries(s \<mapsto> ids))"
    by blast
  with r have "map (\<lambda>qa. recorded E lset (fst qa)) (qa # rest) = map Some ((s, ids) # recs)
     \<and> queries' = fold (\<lambda>(s, ids) m. m(s \<mapsto> ids)) ((s, ids) # recs) queries"
    by simp
  then show ?case by blast
qed

lemma fold_upd_dom:
  "dom (fold (\<lambda>(s, ids) m. m(s \<mapsto> ids)) recs m) = dom m \<union> fst ` set recs"
  by (induction recs arbitrary: m) (auto split: prod.splits)

lemma fold_upd_single_gen:
  "\<forall>ids'. (s, ids') \<in> set recs \<longrightarrow> ids' = ids \<Longrightarrow> (s, ids) \<in> set recs \<or> m s = Some ids \<Longrightarrow>
     fold (\<lambda>(s, ids) m. m(s \<mapsto> ids)) recs m s = Some ids"
proof (induction recs arbitrary: m)
  case Nil
  then show ?case by simp
next
  case (Cons r recs)
  obtain t i where r: "r = (t, i)" by (cases r)
  have all: "\<forall>ids'. (s, ids') \<in> set recs \<longrightarrow> ids' = ids"
    using Cons.prems(1) by simp
  have "(s, ids) \<in> set recs \<or> (m(t \<mapsto> i)) s = Some ids"
  proof (cases "t = s")
    case True
    with Cons.prems(1) r have "i = ids" by simp
    with True show ?thesis by simp
  next
    case False
    with Cons.prems(2) r show ?thesis by auto
  qed
  from Cons.IH [of "m(t \<mapsto> i)", OF all this] r show ?case by simp
qed

section \<open>Lemmas on the planner\<close>

lemma fold_store_object:
  "distinct (map fst rs) \<Longrightarrow>
     fold store_object rs m name =
       (case map_of rs name of None \<Rightarrow> m name | Some (Inl e) \<Rightarrow> m name | Some (Inr c) \<Rightarrow> Some c)"
proof (induction rs arbitrary: m name)
  case Nil
  then show ?case by simp
next
  case (Cons x rs)
  obtain n r where x: "x = (n, r)" by (cases x)
  from Cons.prems x have d: "distinct (map fst rs)" and n: "n \<notin> fst ` set rs" by auto
  from n have none: "map_of rs n = None" by (simp add: map_of_eq_None_iff)
  have ih: "fold store_object rs m' k =
      (case map_of rs k of None \<Rightarrow> m' k | Some (Inl e) \<Rightarrow> m' k | Some (Inr c) \<Rightarrow> Some c)" for m' k
    by (rule Cons.IH [OF d])
  show ?case using x none
    by (cases r; cases "name = n") (simp_all add: ih split: option.splits sum.splits)
qed

lemma objects_ran_eq:
  assumes "range_order (def_Objects sdef) (objects_done S)"
  shows "objects_ran E S sdef =
           map (\<lambda>k. (k, object_goroutine E (the (def_Objects sdef k)))) (objects_done S)"
proof -
  from assms have "set (objects_done S) \<subseteq> dom (def_Objects sdef)"
    by (simp add: range_order_def)
  then show ?thesis by (simp add: objects_ran_def range_entries_eq)
qed

lemma map_of_keys:
  "map_of (map (\<lambda>k. (k, f k)) ks) name = (if name \<in> set ks then Some (f name) else None)"
  by (induction ks) auto

lemma materialize_objects:
  assumes "range_order (def_Objects sdef) (objects_done S)"
  shows "fst (materialize E S sdef Map.empty) name =
           (case def_Objects sdef name of
              None \<Rightarrow> None
            | Some odef \<Rightarrow> (case object_goroutine E odef of Inl e \<Rightarrow> None | Inr c \<Rightarrow> Some c))"
proof -
  let ?rs = "map (\<lambda>k. (k, object_goroutine E (the (def_Objects sdef k)))) (objects_done S)"
  from assms have d: "distinct (map fst ?rs)" by (simp add: range_order_def comp_def)
  from assms have s: "set (objects_done S) = dom (def_Objects sdef)" by (simp add: range_order_def)
  have "fst (materialize E S sdef Map.empty) name = fold store_object ?rs Map.empty name"
    by (simp add: materialize_def objects_ran_eq [OF assms])
  also have "\<dots> = (case map_of ?rs name of None \<Rightarrow> None | Some (Inl e) \<Rightarrow> None | Some (Inr c) \<Rightarrow> Some c)"
    by (simp add: fold_store_object [OF d])
  also have "\<dots> = (case def_Objects sdef name of
              None \<Rightarrow> None
            | Some odef \<Rightarrow> (case object_goroutine E odef of Inl e \<Rightarrow> None | Inr c \<Rightarrow> Some c))"
    using s by (auto simp: map_of_keys dom_def split: option.splits)
  finally show ?thesis .
qed

lemma materialize_error:
  assumes "range_order (def_Objects sdef) (objects_done S)"
  shows "snd (materialize E S sdef m) = None \<longleftrightarrow>
           (\<forall>name odef. def_Objects sdef name = Some odef \<longrightarrow> (\<exists>c. object_goroutine E odef = Inr c))"
    and "snd (materialize E S sdef m) = Some e \<Longrightarrow>
           \<exists>name odef. def_Objects sdef name = Some odef \<and> object_goroutine E odef = Inl e"
proof -
  let ?g = "\<lambda>k. object_goroutine E (the (def_Objects sdef k))"
  from assms have s: "set (objects_done S) = dom (def_Objects sdef)" by (simp add: range_order_def)
  have snd: "snd (materialize E S sdef m) = first_error (map (\<lambda>k. err_of (?g k)) (objects_done S))"
    by (simp add: materialize_def objects_ran_eq [OF assms] comp_def)
  have "snd (materialize E S sdef m) = None \<longleftrightarrow> (\<forall>k \<in> set (objects_done S). err_of (?g k) = None)"
    by (auto simp: snd first_error_None)
  also have "\<dots> \<longleftrightarrow> (\<forall>name odef. def_Objects sdef name = Some odef \<longrightarrow> (\<exists>c. object_goroutine E odef = Inr c))"
  proof
    assume a: "\<forall>k \<in> set (objects_done S). err_of (?g k) = None"
    show "\<forall>name odef. def_Objects sdef name = Some odef \<longrightarrow> (\<exists>c. object_goroutine E odef = Inr c)"
    proof (intro allI impI)
      fix name odef assume d: "def_Objects sdef name = Some odef"
      with s have "name \<in> set (objects_done S)" by auto
      with a d have "err_of (object_goroutine E odef) = None" by force
      then show "\<exists>c. object_goroutine E odef = Inr c"
        by (cases "object_goroutine E odef") simp_all
    qed
  next
    assume a: "\<forall>name odef. def_Objects sdef name = Some odef \<longrightarrow> (\<exists>c. object_goroutine E odef = Inr c)"
    show "\<forall>k \<in> set (objects_done S). err_of (?g k) = None"
    proof
      fix k assume "k \<in> set (objects_done S)"
      with s obtain odef where d: "def_Objects sdef k = Some odef" by auto
      with a obtain c where "object_goroutine E odef = Inr c" by blast
      with d show "err_of (?g k) = None" by simp
    qed
  qed
  finally show "snd (materialize E S sdef m) = None \<longleftrightarrow>
           (\<forall>name odef. def_Objects sdef name = Some odef \<longrightarrow> (\<exists>c. object_goroutine E odef = Inr c))" .
  show "\<exists>name odef. def_Objects sdef name = Some odef \<and> object_goroutine E odef = Inl e"
    if "snd (materialize E S sdef m) = Some e"
  proof -
    from that have "first_error (map (\<lambda>k. err_of (?g k)) (objects_done S)) = Some e"
      by (simp add: snd)
    from first_error_Some [OF this]
    obtain k where k: "k \<in> set (objects_done S)" and e: "err_of (?g k) = Some e" by auto
    from k s obtain odef where d: "def_Objects sdef k = Some odef" by auto
    from e d have "object_goroutine E odef = Inl e"
      by (cases "object_goroutine E odef") simp_all
    with d show ?thesis by blast
  qed
qed

lemma Plan_objects_failed:
  assumes "materialize E S sdef Map.empty = (objects, Some e)"
  shows "Plan E S sdef lset =
           Returns (\<lparr>Objects = objects, Seed = Map.empty, Benchmark = Map.empty\<rparr>, None, Some e)"
  using assms by (simp add: Plan_def)

lemma Plan_success:
  assumes "Plan E S sdef lset = Returns (plan, queries, None)"
  shows "\<exists>objects plan2 q.
           materialize E S sdef Map.empty = (objects, None)
         \<and> seed_loop E lset \<lparr>Objects = objects, Seed = Map.empty, Benchmark = Map.empty\<rparr>
              (range_entries (def_Seed sdef) (seed_keys S)) = Returns (plan2, None)
         \<and> benchmark_loop E lset plan2 Map.empty
              (range_entries (def_Benchmark sdef) (benchmark_keys S)) = Returns (plan, q, None)
         \<and> queries = Some q"
proof -
  obtain objects err where m: "materialize E S sdef Map.empty = (objects, err)"
    by (cases "materialize E S sdef Map.empty")
  let ?p1 = "\<lparr>Objects = objects, Seed = Map.empty, Benchmark = Map.empty\<rparr>"
  from assms m have err: "err = None" by (cases err) (simp_all add: Plan_def)
  with assms m obtain plan2 where
    s: "seed_loop E lset ?p1 (range_entries (def_Seed sdef) (seed_keys S)) = Returns (plan2, None)"
    by (auto simp: Plan_def split: outcome.splits option.splits)
  with assms m err obtain q where
    "benchmark_loop E lset plan2 Map.empty
        (range_entries (def_Benchmark sdef) (benchmark_keys S)) = Returns (plan, q, None)"
    "queries = Some q"
    by (auto simp: Plan_def split: outcome.splits option.splits)
  with m err s show ?thesis by blast
qed

lemma Plan_error_nil:
  assumes "Plan E S sdef lset = Returns (plan, queries, Some e)"
  shows "queries = None"
proof -
  obtain objects err where m: "materialize E S sdef Map.empty = (objects, err)"
    by (cases "materialize E S sdef Map.empty")
  show ?thesis
  proof (cases err)
    case (Some e')
    with assms m show ?thesis by (simp add: Plan_def)
  next
    case None
    with assms m show ?thesis
      by (auto simp: Plan_def split: outcome.splits option.splits)
  qed
qed

section \<open>Lemmas on Connect\<close>

lemma upt_2: "[0..<2] = [0, Suc 0]"
  by (simp add: upt_rec)

lemma after_loop_ok: "fanout_ok 2 (after_loop 2)"
  by (simp add: fanout_ok_def after_loop_def upt_2)

lemmas connect_eval = Connect_def Let_def collect_goroutine_def upt_2 reachable_def connect_task_def
  nodeA_def nodeB_def

lemma Connect_at_once_sample:
  "Connect all_reachable (at_once 2) (at_once 2) [nodeA, nodeB] =
       (None, [(nodeA, connect_task ''/ip4/10.0.0.1/tcp/4001/p2p/QmA,/ip4/10.0.0.2/tcp/4001/p2p/QmB''),
               (nodeB, connect_task ''/ip4/10.0.0.1/tcp/4001/p2p/QmA,/ip4/10.0.0.2/tcp/4001/p2p/QmB'')])"
  by (simp add: connect_eval all_reachable_def at_once_def)

lemma Connect_at_once_silent:
  "Connect A_without_address (at_once 2) (at_once 2) [nodeA, nodeB] = (Some (ZeroAddresses ''10.0.0.1''), [])"
  by (simp add: connect_eval A_without_address_def at_once_def)

lemma fold_write_slot_length:
  "length (fold (\<lambda>k. write_slot (c k)) ks xs) = length xs"
proof (induction ks arbitrary: xs)
  case Nil
  then show ?case by simp
next
  case (Cons k ks)
  show ?case
  proof (cases "c k")
    case (Inl e)
    then show ?thesis by (simp add: Cons.IH)
  next
    case (Inr w)
    then show ?thesis by (cases w) (simp add: Cons.IH)
  qed
qed

lemma fold_write_slot_own:
  assumes "\<forall>k \<in> set ks. c k = Inr (k, s k)" "i < length xs"
  shows "fold (\<lambda>k. write_slot (c k)) ks xs ! i = (if i \<in> set ks then s i else xs ! i)"
  using assms
proof (induction ks arbitrary: xs)
  case Nil
  then show ?case by simp
next
  case (Cons k ks)
  then show ?case by (auto simp: nth_list_update)
qed

lemma own_iteration_reads: "own_iteration n F \<Longrightarrow> k < n \<Longrightarrow> reads F k = k"
  by (simp add: own_iteration_def list_all_iff)

lemma fanout_ok_finish: "fanout_ok n F \<Longrightarrow> set (finish F) = {0..<n}"
  by (simp add: fanout_ok_def)

lemma Connect_own_iteration_no_address:
  assumes ok: "fanout_ok (length ns) F1" and own: "own_iteration (length ns) F1"
    and n: "n \<in> set ns" and p: "PeerInfo_of E n = Inr peerInfo" and a: "Addrs peerInfo = []"
  shows "\<exists>e. Connect E F1 F2 ns = (Some e, [])"
proof -
  let ?collected = "\<lambda>k. collect_goroutine E (ns ! reads F1 k) (reads F1 k)"
  from n obtain k where k: "k < length ns" "ns ! k = n" by (auto simp: in_set_conv_nth)
  with own have "?collected k = collect_goroutine E n k" by (simp add: own_iteration_reads)
  with p a have "err_of (?collected k) = Some (ZeroAddresses (Address n))"
    by (simp add: collect_goroutine_def)
  moreover from k ok have "k \<in> set (finish F1)" by (simp add: fanout_ok_finish)
  ultimately have "Some (ZeroAddresses (Address n)) \<in> set (map (\<lambda>k. err_of (?collected k)) (finish F1))"
    by force
  then have "first_error (map (\<lambda>k. err_of (?collected k)) (finish F1)) \<noteq> None"
    unfolding first_error_None by blast
  then obtain e where "first_error (map (\<lambda>k. err_of (?collected k)) (finish F1)) = Some e"
    by auto
  then have "Connect E F1 F2 ns = (Some e, [])" by (simp add: Connect_def)
  then show ?thesis by blast
qed

lemma Connect_own_iteration_broadcast:
  assumes ok1: "fanout_ok (length ns) F1" and own1: "own_iteration (length ns) F1"
    and own2: "own_iteration (length ns) F2"
    and all: "\<forall>n \<in> set ns. \<exists>peerInfo. PeerInfo_of E n = Inr peerInfo \<and> Addrs peerInfo \<noteq> []"
  shows "snd (Connect E F1 F2 ns) =
           map (\<lambda>n. (n, \<lparr>Type = TaskConnect,
                          Subject = Join (map (\<lambda>n. dial_string (projr (PeerInfo_of E n))) ns) '',''\<rparr>)) ns"
proof -
  let ?collected = "\<lambda>k. collect_goroutine E (ns ! reads F1 k) (reads F1 k)"
  let ?dial = "\<lambda>n. dial_string (projr (PeerInfo_of E n))"
  let ?peerAddrs = "fold (\<lambda>k. write_slot (?collected k)) (finish F1) (replicate (length ns) [])"
  have c: "?collected k = Inr (k, ?dial (ns ! k))" if "k < length ns" for k
  proof -
    from that all obtain peerInfo where "PeerInfo_of E (ns ! k) = Inr peerInfo" "Addrs peerInfo \<noteq> []"
      by (meson nth_mem)
    with that own1 show ?thesis
      by (simp add: own_iteration_reads collect_goroutine_def dial_string_def)
  qed
  from ok1 have fin: "set (finish F1) = {0..<length ns}" by (rule fanout_ok_finish)
  with c have cs: "\<forall>k \<in> set (finish F1). ?collected k = Inr (k, ?dial (ns ! k))" by simp
  have "?peerAddrs = map ?dial ns"
  proof (rule nth_equalityI)
    show "length ?peerAddrs = length (map ?dial ns)" by (simp add: fold_write_slot_length)
  next
    fix i assume "i < length ?peerAddrs"
    then have i: "i < length ns" by (simp add: fold_write_slot_length)
    with fold_write_slot_own [OF cs, of i "replicate (length ns) []"] fin
    show "?peerAddrs ! i = map ?dial ns ! i" by simp
  qed
  moreover from cs have "first_error (map (\<lambda>k. err_of (?collected k)) (finish F1)) = None"
    by (simp add: first_error_None)
  moreover have "map (\<lambda>k. (ns ! reads F2 k, t)) [0..<length ns] = map (\<lambda>n. (n, t)) ns" for t :: Task
  proof -
    have "map (\<lambda>k. (ns ! reads F2 k, t)) [0..<length ns] = map (\<lambda>k. (ns ! k, t)) [0..<length ns]"
      using own2 by (simp add: own_iteration_reads)
    also have "\<dots> = map (\<lambda>n. (n, t)) (map (\<lambda>k. ns ! k) [0..<length ns])" by (simp add: comp_def)
    also have "\<dots> = map (\<lambda>n. (n, t)) ns" by (simp add: map_nth)
    finally show ?thesis .
  qed
  ultimately show ?thesis by (simp add: Connect_def Let_def)
qed

section \<open>The sample runs\<close>

lemmas sample_defs = sample_env_def sample_sdef_def sample_lset_def sample_object_def
  nodeA_def nodeB_def nodeC_def x_then_y_def y_then_x_def

lemmas plan_eval = Plan_def materialize_def objects_ran_def range_entries_def List.map_filter_def
  object_goroutine_def AddOptionsFromDefinition_def seed_loop.simps benchmark_loop.simps Let_def

lemma x_then_y_ok: "plan_sched_ok sample_sdef x_then_y"
  by (auto simp: plan_sched_ok_def range_order_def sample_sdef_def x_then_y_def dom_def)

lemma y_then_x_ok: "plan_sched_ok sample_sdef y_then_x"
  by (auto simp: plan_sched_ok_def range_order_def sample_sdef_def y_then_x_def dom_def)

lemma Plan_x_then_y:
  "Plan sample_env x_then_y sample_sdef sample_lset = Returns (x_then_y_plan, Some sample_audit, None)"
  by (simp add: plan_eval sample_defs x_then_y_plan_def sample_audit_def)

lemma Plan_y_then_x:
  "Plan sample_env y_then_x sample_sdef sample_lset = Returns (y_then_x_plan, Some sample_audit, None)"
  by (simp add: plan_eval sample_defs y_then_x_plan_def sample_audit_def)

lemma data_then_layer_ok: "plan_sched_ok unknown_type_sdef data_then_layer"
  by (auto simp: plan_sched_ok_def range_order_def sample_sdef_def x_then_y_def dom_def
      unknown_type_sdef_def data_then_layer_def)

lemma Plan_unknown_type:
  "Plan sample_env data_then_layer unknown_type_sdef sample_lset =
     Returns (\<lparr>Objects = [''data'' \<mapsto> ''cid-of-image''], Seed = Map.empty, Benchmark = Map.empty\<rparr>,
              None, Some (Opaque ''unknown transformer''))"
  by (simp add: plan_eval sample_defs unknown_type_sdef_def data_then_layer_def)

lemma Plan_unparsable:
  "Plan sample_env y_then_empty unparsable_sdef sample_lset =
     Returns (x_then_y_plan, None, Some (Opaque ''empty query''))"
  by (simp add: plan_eval sample_defs unparsable_sdef_def y_then_empty_def x_then_y_plan_def)

lemma sample_canonical: "canonical sample_env sample_lset (dom (def_Benchmark sample_sdef))"
  by (auto simp: canonical_def sample_sdef_def dom_def split: if_splits)

section \<open>The sample benchmark run\<close>

lemma FormatInt_sample: "FormatInt 1572566400000000123 = ''1572566400000000123''"
  by (simp add: FormatInt_def digits.simps digit_char_def)

lemma upt_3: "[0..<3] = [0, Suc 0, Suc (Suc 0)]"
  by (simp add: upt_rec)

lemma Connect_sample_cluster:
  "Connect all_reachable (at_once 3) (at_once 3) [nodeA, nodeB, nodeC] =
     (None, map (\<lambda>n. (n, connect_task
        ''/ip4/10.0.0.1/tcp/4001/p2p/QmA,/ip4/10.0.0.2/tcp/4001/p2p/QmB,/ip4/10.0.0.3/tcp/4001/p2p/QmC''))
        [nodeA, nodeB, nodeC])"
  by (simp add: Connect_def Let_def collect_goroutine_def upt_3 reachable_def connect_task_def
      nodeA_def nodeB_def nodeC_def all_reachable_def at_once_def)

lemma reset_and_connect_sample:
  "reset_and_connect sample_router all_reachable (at_once 3) (at_once 3) False [nodeA, nodeB, nodeC] = None"
  "reset_and_connect failing_run all_reachable (at_once 3) (at_once 3) False [nodeA, nodeB, nodeC] = None"
  by (simp_all add: reset_and_connect_def Connect_sample_cluster sample_router_def failing_run_def)

lemma prepare_sample:
  "prepare sample_router sample_env all_reachable (at_once 3) (at_once 3) x_then_y sample_request empty_store
     = Returns (Inr sample_prepared)"
proof -
  have "GetScenario sample_router empty_store ''s1'' = Inr sample_scenario"
    "GetCluster sample_router empty_store ''c1'' = Inr sample_cluster"
    "ListNodes sample_router empty_store ''c1'' = Inr [nodeA, nodeB, nodeC]"
    "FormatInt (UnixNano sample_router) = ''1572566400000000123''"
    by (simp_all add: sample_router_def FormatInt_sample)
  then show ?thesis
    by (simp add: prepare_def sample_request_def reset_and_connect_sample sample_scenario_def
        Plan_x_then_y [unfolded sample_lset_def] sample_prepared_def sample_lset_def Let_def)
qed

lemma prepare_failing_run:
  "prepare failing_run sample_env all_reachable (at_once 3) (at_once 3) x_then_y sample_request empty_store
     = Returns (Inr sample_prepared)"
proof -
  have "GetScenario failing_run empty_store ''s1'' = Inr sample_scenario"
    "GetCluster failing_run empty_store ''c1'' = Inr sample_cluster"
    "ListNodes failing_run empty_store ''c1'' = Inr [nodeA, nodeB, nodeC]"
    "FormatInt (UnixNano failing_run) = ''1572566400000000123''"
    by (simp_all add: failing_run_def sample_router_def FormatInt_sample)
  then show ?thesis
    by (simp add: prepare_def sample_request_def reset_and_connect_sample sample_scenario_def
        Plan_x_then_y [unfolded sample_lset_def] sample_prepared_def sample_lset_def Let_def)
qed

lemma make_report_sample:
  "make_report sample_router sample_execution (Some sample_audit) = sample_report"
  by (simp add: make_report_def sample_router_def sample_execution_def sample_report_def Let_def)

lemma persist_done_sample:
  "persist_done sample_router running_store (new_benchmark sample_prepared) sample_report
     = (done_store, None)"
  by (simp add: persist_done_def db_Update_def sample_router_def running_store_def done_store_def
      new_benchmark_def sample_prepared_def)

section \<open>Properties\<close>

text \<open>
  C8. For every object definition, the options handed to the transform contain a layout,
  chunker, raw-leaves or hash-function option exactly when that field is set (a non-empty
  string; \<open>true\<close> for the raw-leaves flag), the option then carries the field's value, and
  nothing else is in the list: an unset field contributes no option.
\<close>

theorem AddOptionsFromDefinition_only_set_fields:
  "(WithLayout l \<in> set (AddOptionsFromDefinition odef)) = (Layout odef \<noteq> [] \<and> l = Layout odef)
   \<and> (WithChunker c \<in> set (AddOptionsFromDefinition odef)) = (Chunker odef \<noteq> [] \<and> c = Chunker odef)
   \<and> (WithRawLeaves b \<in> set (AddOptionsFromDefinition odef)) = (RawLeaves odef \<and> b)
   \<and> (WithHashFunc h \<in> set (AddOptionsFromDefinition odef)) = (HashFunc odef \<noteq> [] \<and> h = HashFunc odef)
   \<and> length (AddOptionsFromDefinition odef) =
       (if Layout odef \<noteq> [] then 1 else 0) + (if Chunker odef \<noteq> [] then 1 else 0)
       + (if RawLeaves odef then 1 else 0) + (if HashFunc odef \<noteq> [] then 1 else 0)"
  by (auto simp: AddOptionsFromDefinition_def Let_def)

text \<open>
  C1 (as amended). Seed planning processes the entries of the definition's seed map one at
  a time, in the order in which the range over the map yields them in this run, and
  assigns each entry's task map as the plan's \<open>Seed\<close>: when planning succeeds, \<open>Seed\<close> is
  the task map of the entry yielded last and nothing of the earlier ones (the empty map
  when there is no entry). The map has no order of its own; which entry comes last is not
  decided by the definition.
\<close>

theorem Plan_seed_is_last_entry:
  assumes ok: "plan_sched_ok sdef S"
    and ret: "Plan E S sdef lset = Returns (plan, queries, None)"
  shows "if seed_keys S = [] then Seed plan = Map.empty
         else (\<exists>a. def_Seed sdef (last (seed_keys S)) = Some a
                 \<and> entry_tasks E lset (Objects plan) (last (seed_keys S), a) = Returns (Inr (Seed plan)))"
proof -
  from Plan_success [OF ret] obtain objects plan2 q where
    s: "seed_loop E lset \<lparr>Objects = objects, Seed = Map.empty, Benchmark = Map.empty\<rparr>
          (range_entries (def_Seed sdef) (seed_keys S)) = Returns (plan2, None)" and
    b: "benchmark_loop E lset plan2 Map.empty
          (range_entries (def_Benchmark sdef) (benchmark_keys S)) = Returns (plan, q, None)"
    by blast
  from benchmark_loop_frame [OF b] have pb: "Objects plan = Objects plan2" "Seed plan = Seed plan2"
    by simp_all
  from seed_loop_frame [OF s] have ps: "Objects plan2 = objects" by simp
  from ok have dom: "set (seed_keys S) = dom (def_Seed sdef)"
    by (simp add: plan_sched_ok_def range_order_def)
  then have entries: "range_entries (def_Seed sdef) (seed_keys S)
      = map (\<lambda>k. (k, the (def_Seed sdef k))) (seed_keys S)"
    by (simp add: range_entries_eq)
  show ?thesis
  proof (cases "seed_keys S = []")
    case True
    with s entries have "plan2 = \<lparr>Objects = objects, Seed = Map.empty, Benchmark = Map.empty\<rparr>"
      by simp
    with True pb show ?thesis by simp
  next
    case False
    then have "last (seed_keys S) \<in> set (seed_keys S)" by simp
    with dom obtain a where a: "def_Seed sdef (last (seed_keys S)) = Some a" by auto
    from False entries have ne: "range_entries (def_Seed sdef) (seed_keys S) \<noteq> []" by simp
    from False entries a have l: "last (range_entries (def_Seed sdef) (seed_keys S)) = (last (seed_keys S), a)"
      by (simp add: last_map)
    from seed_loop_last [OF s ne] l pb ps a False show ?thesis by simp
  qed
qed

theorem Plan_seed_is_last_entry_witness:
  "plan_sched_ok sample_sdef x_then_y
   \<and> Plan sample_env x_then_y sample_sdef sample_lset = Returns (x_then_y_plan, Some sample_audit, None)
   \<and> last (seed_keys x_then_y) = ''role=y''
   \<and> entry_tasks sample_env sample_lset (Objects x_then_y_plan) (''role=y'', ''taskBar'')
        = Returns (Inr (Seed x_then_y_plan))
   \<and> Seed x_then_y_plan ''C'' = Some (taskOf ''taskBar'')
   \<and> Seed x_then_y_plan ''A'' = None \<and> Seed x_then_y_plan ''B'' = None"
  using Plan_seed_is_last_entry [OF x_then_y_ok Plan_x_then_y] x_then_y_ok Plan_x_then_y
  by (simp add: x_then_y_def sample_sdef_def x_then_y_plan_def)

text \<open>
  C1 as stated fails: the scenario with the seed entries \<open>role=x\<close> to \<open>taskFoo\<close> and
  \<open>role=y\<close> to \<open>taskBar\<close>, ranged over with \<open>role=y\<close> first, leaves \<open>Seed\<close> with
  \<open>taskFoo\<close> for \<open>A\<close> and \<open>B\<close> and nothing for \<open>C\<close>.
\<close>

theorem Plan_seed_written_order_counterexample:
  "plan_sched_ok sample_sdef y_then_x
   \<and> Plan sample_env y_then_x sample_sdef sample_lset = Returns (y_then_x_plan, Some sample_audit, None)
   \<and> Seed y_then_x_plan ''A'' = Some (taskOf ''taskFoo'')
   \<and> Seed y_then_x_plan ''B'' = Some (taskOf ''taskFoo'')
   \<and> Seed y_then_x_plan ''C'' = None
   \<and> Seed y_then_x_plan \<noteq> [''C'' \<mapsto> taskOf ''taskBar'']"
proof -
  have "Seed y_then_x_plan ''C'' \<noteq> [''C'' \<mapsto> taskOf ''taskBar''] ''C''"
    by (simp add: y_then_x_plan_def)
  then have "Seed y_then_x_plan \<noteq> [''C'' \<mapsto> taskOf ''taskBar'']" by metis
  with y_then_x_ok Plan_y_then_x show ?thesis by (simp add: y_then_x_plan_def)
qed

text \<open>
  C5. Object materialization resolves every object definition. When planning succeeds the
  plan's \<open>Objects\<close> map has exactly the names of the definition's objects, each with the
  content id its transform gave. When some materialization fails, \<open>Plan\<close> fails with the
  error of a failed materialization, and neither seed nor benchmark planning has run on
  the objects map built so far: the \<open>Seed\<close> and \<open>Benchmark\<close> maps are still empty and
  the audit map is nil.
\<close>

theorem Plan_objects_all_or_error:
  assumes ok: "plan_sched_ok sdef S"
  shows "(Plan E S sdef lset = Returns (plan, queries, None) \<longrightarrow>
            dom (Objects plan) = dom (def_Objects sdef)
          \<and> (\<forall>name \<in> dom (def_Objects sdef). \<exists>odef c.
                def_Objects sdef name = Some odef \<and> object_goroutine E odef = Inr c
              \<and> Objects plan name = Some c))
       \<and> ((\<exists>name odef e. def_Objects sdef name = Some odef \<and> object_goroutine E odef = Inl e) \<longrightarrow>
            (\<exists>name odef e objects.
                def_Objects sdef name = Some odef \<and> object_goroutine E odef = Inl e
              \<and> Plan E S sdef lset =
                  Returns (\<lparr>Objects = objects, Seed = Map.empty, Benchmark = Map.empty\<rparr>, None, Some e)))"
proof (intro conjI impI)
  from ok have ro: "range_order (def_Objects sdef) (objects_done S)"
    by (simp add: plan_sched_ok_def)
  {
    assume ret: "Plan E S sdef lset = Returns (plan, queries, None)"
    from Plan_success [OF ret] obtain objects plan2 q where
      m: "materialize E S sdef Map.empty = (objects, None)" and
      s: "seed_loop E lset \<lparr>Objects = objects, Seed = Map.empty, Benchmark = Map.empty\<rparr>
            (range_entries (def_Seed sdef) (seed_keys S)) = Returns (plan2, None)" and
      b: "benchmark_loop E lset plan2 Map.empty
            (range_entries (def_Benchmark sdef) (benchmark_keys S)) = Returns (plan, q, None)"
      by blast
    from benchmark_loop_frame [OF b] seed_loop_frame [OF s] have o: "Objects plan = objects"
      by simp
    from m have all: "\<forall>name odef. def_Objects sdef name = Some odef \<longrightarrow> (\<exists>c. object_goroutine E odef = Inr c)"
      using materialize_error(1) [OF ro, of E Map.empty] by simp
    have at: "Objects plan name =
           (case def_Objects sdef name of
              None \<Rightarrow> None
            | Some odef \<Rightarrow> (case object_goroutine E odef of Inl e \<Rightarrow> None | Inr c \<Rightarrow> Some c))" for name
      using materialize_objects [OF ro, of E name] m o by simp
    show each: "\<forall>name \<in> dom (def_Objects sdef). \<exists>odef c.
                def_Objects sdef name = Some odef \<and> object_goroutine E odef = Inr c
              \<and> Objects plan name = Some c"
    proof
      fix name assume "name \<in> dom (def_Objects sdef)"
      then obtain odef where d: "def_Objects sdef name = Some odef" by auto
      with all obtain c where c: "object_goroutine E odef = Inr c" by blast
      with d at [of name] show "\<exists>odef c. def_Objects sdef name = Some odef
          \<and> object_goroutine E odef = Inr c \<and> Objects plan name = Some c"
        by simp
    qed
    show "dom (Objects plan) = dom (def_Objects sdef)"
    proof
      show "dom (Objects plan) \<subseteq> dom (def_Objects sdef)"
        using at by (auto split: option.splits)
      show "dom (def_Objects sdef) \<subseteq> dom (Objects plan)"
        using each by auto
    qed
  }
  {
    assume "\<exists>name odef e. def_Objects sdef name = Some odef \<and> object_goroutine E odef = Inl e"
    then obtain name0 odef0 e0 where
      d0: "def_Objects sdef name0 = Some odef0" and g0: "object_goroutine E odef0 = Inl e0"
      by blast
    have "snd (materialize E S sdef Map.empty) \<noteq> None"
    proof
      assume "snd (materialize E S sdef Map.empty) = None"
      with materialize_error(1) [OF ro, of E Map.empty] d0
      obtain c where "object_goroutine E odef0 = Inr c" by blast
      with g0 show False by simp
    qed
    then obtain objects e where m: "materialize E S sdef Map.empty = (objects, Some e)"
      by (cases "materialize E S sdef Map.empty") auto
    then have "snd (materialize E S sdef Map.empty) = Some e" by simp
    from materialize_error(2) [OF ro this] obtain name odef where
      "def_Objects sdef name = Some odef" "object_goroutine E odef = Inl e" by blast
    with Plan_objects_failed [OF m, of lset]
    show "\<exists>name odef e objects.
                def_Objects sdef name = Some odef \<and> object_goroutine E odef = Inl e
              \<and> Plan E S sdef lset =
                  Returns (\<lparr>Objects = objects, Seed = Map.empty, Benchmark = Map.empty\<rparr>, None, Some e)"
      by blast
  }
qed

theorem Plan_objects_all_or_error_witness:
  "plan_sched_ok sample_sdef x_then_y
   \<and> Plan sample_env x_then_y sample_sdef sample_lset = Returns (x_then_y_plan, Some sample_audit, None)
   \<and> dom (Objects x_then_y_plan) = dom (def_Objects sample_sdef)
   \<and> Objects x_then_y_plan ''data'' = Some ''cid-of-image''
   \<and> plan_sched_ok unknown_type_sdef data_then_layer
   \<and> def_Objects unknown_type_sdef ''layer'' = Some (sample_object\<lparr>ObjType := ''tarball''\<rparr>)
   \<and> object_goroutine sample_env (sample_object\<lparr>ObjType := ''tarball''\<rparr>) = Inl (Opaque ''unknown transformer'')
   \<and> Plan sample_env data_then_layer unknown_type_sdef sample_lset =
       Returns (\<lparr>Objects = [''data'' \<mapsto> ''cid-of-image''], Seed = Map.empty, Benchmark = Map.empty\<rparr>,
                None, Some (Opaque ''unknown transformer''))"
proof -
  have bad: "object_goroutine sample_env (sample_object\<lparr>ObjType := ''tarball''\<rparr>) = Inl (Opaque ''unknown transformer'')"
    by (simp add: object_goroutine_def sample_env_def sample_object_def)
  have layer: "def_Objects unknown_type_sdef ''layer'' = Some (sample_object\<lparr>ObjType := ''tarball''\<rparr>)"
    by (simp add: unknown_type_sdef_def)
  from Plan_objects_all_or_error [OF x_then_y_ok, of sample_env sample_lset x_then_y_plan "Some sample_audit"]
    Plan_x_then_y
  have "dom (Objects x_then_y_plan) = dom (def_Objects sample_sdef)" by simp
  moreover have "Objects x_then_y_plan ''data'' = Some ''cid-of-image''"
    by (simp add: x_then_y_plan_def)
  ultimately show ?thesis
    using x_then_y_ok Plan_x_then_y data_then_layer_ok bad layer Plan_unknown_type by simp
qed

text \<open>
  C6. When planning succeeds, the audit map returned beside the plan has, for every
  benchmark query, an entry under the query's canonical string whose value is the list of
  the matched node identifiers, and it has no other entry. (Queries that share a
  canonical string are taken to match the same nodes, as the contract of the canonical
  string says.)
\<close>

theorem Plan_audit_map:
  assumes ok: "plan_sched_ok sdef S"
    and ret: "Plan E S sdef lset = Returns (plan, Some queries, None)"
    and canon: "canonical E lset (dom (def_Benchmark sdef))"
  shows "(\<forall>q \<in> dom (def_Benchmark sdef). \<exists>s ids. recorded E lset q = Some (s, ids) \<and> queries s = Some ids)
       \<and> dom queries = {s. \<exists>q \<in> dom (def_Benchmark sdef). \<exists>ids. recorded E lset q = Some (s, ids)}"
proof -
  from Plan_success [OF ret] obtain plan2 where
    b: "benchmark_loop E lset plan2 Map.empty
          (range_entries (def_Benchmark sdef) (benchmark_keys S)) = Returns (plan, queries, None)"
    by auto
  from ok have dom: "set (benchmark_keys S) = dom (def_Benchmark sdef)"
    by (simp add: plan_sched_ok_def range_order_def)
  then have entries: "range_entries (def_Benchmark sdef) (benchmark_keys S)
      = map (\<lambda>k. (k, the (def_Benchmark sdef k))) (benchmark_keys S)"
    by (simp add: range_entries_eq)
  from benchmark_loop_records [OF b] entries obtain recs where
    recs: "map (recorded E lset) (benchmark_keys S) = map Some recs" and
    q: "queries = fold (\<lambda>(s, ids) m. m(s \<mapsto> ids)) recs Map.empty"
    by (auto simp: comp_def)
  from recs have "set (map (recorded E lset) (benchmark_keys S)) = set (map Some recs)" by simp
  with dom have img: "recorded E lset ` dom (def_Benchmark sdef) = Some ` set recs" by simp
  have single: "\<forall>ids'. (s, ids') \<in> set recs \<longrightarrow> ids' = ids" if "(s, ids) \<in> set recs" for s ids
  proof (intro allI impI)
    fix ids' assume "(s, ids') \<in> set recs"
    with img that obtain q q' where "q \<in> dom (def_Benchmark sdef)" "q' \<in> dom (def_Benchmark sdef)"
      "recorded E lset q = Some (s, ids)" "recorded E lset q' = Some (s, ids')"
      by (metis (no_types, lifting) image_iff)
    with canon show "ids' = ids" unfolding canonical_def by blast
  qed
  have first: "\<forall>q \<in> dom (def_Benchmark sdef). \<exists>s ids. recorded E lset q = Some (s, ids) \<and> queries s = Some ids"
  proof
    fix q' assume "q' \<in> dom (def_Benchmark sdef)"
    with img obtain r where r: "recorded E lset q' = Some r" "r \<in> set recs"
      by (metis (no_types, lifting) image_iff)
    obtain s ids where sr: "r = (s, ids)" by (cases r)
    with r have mem: "(s, ids) \<in> set recs" by simp
    from fold_upd_single_gen [OF single [OF mem], of Map.empty] mem q
    have "queries s = Some ids" by simp
    with r sr show "\<exists>s ids. recorded E lset q' = Some (s, ids) \<and> queries s = Some ids" by simp
  qed
  have "dom queries = fst ` set recs" by (simp add: q fold_upd_dom)
  also have "\<dots> = {s. \<exists>q \<in> dom (def_Benchmark sdef). \<exists>ids. recorded E lset q = Some (s, ids)}"
  proof (intro set_eqI iffI)
    fix s assume "s \<in> fst ` set recs"
    then obtain ids where "(s, ids) \<in> set recs" by auto
    with img obtain q' where "q' \<in> dom (def_Benchmark sdef)" "recorded E lset q' = Some (s, ids)"
      by (metis (no_types, lifting) image_iff)
    then show "s \<in> {s. \<exists>q \<in> dom (def_Benchmark sdef). \<exists>ids. recorded E lset q = Some (s, ids)}"
      by blast
  next
    fix s assume "s \<in> {s. \<exists>q \<in> dom (def_Benchmark sdef). \<exists>ids. recorded E lset q = Some (s, ids)}"
    then obtain q' ids where "q' \<in> dom (def_Benchmark sdef)" "recorded E lset q' = Some (s, ids)"
      by blast
    with img have "Some (s, ids) \<in> Some ` set recs" by (metis image_eqI)
    then show "s \<in> fst ` set recs" by force
  qed
  finally show ?thesis using first by simp
qed

theorem Plan_audit_map_witness:
  "plan_sched_ok sample_sdef x_then_y
   \<and> Plan sample_env x_then_y sample_sdef sample_lset = Returns (x_then_y_plan, Some sample_audit, None)
   \<and> canonical sample_env sample_lset (dom (def_Benchmark sample_sdef))
   \<and> recorded sample_env sample_lset ''role=y'' = Some (''role=y'', [''C''])
   \<and> sample_audit ''role=y'' = Some [''C'']
   \<and> dom sample_audit = {''role=y''}"
proof -
  have r: "recorded sample_env sample_lset ''role=y'' = Some (''role=y'', [''C''])"
    by (simp add: recorded_def sample_defs)
  have d: "dom (def_Benchmark sample_sdef) = {''role=y''}"
    by (auto simp: sample_sdef_def dom_def split: if_splits)
  from Plan_audit_map [OF x_then_y_ok Plan_x_then_y sample_canonical] r d
  have "sample_audit ''role=y'' = Some [''C''] \<and> dom sample_audit = {''role=y''}"
    by auto
  with x_then_y_ok Plan_x_then_y sample_canonical r show ?thesis by simp
qed

text \<open>
  C10. Whenever \<open>Plan\<close> returns a non-nil error the audit map it returns is nil; a non-nil
  audit map comes only with a nil error.
\<close>

theorem Plan_error_nil_audit:
  assumes "Plan E S sdef lset = Returns (plan, queries, err)"
  shows "(err \<noteq> None \<longrightarrow> queries = None) \<and> (queries \<noteq> None \<longrightarrow> err = None)"
proof (cases err)
  case None
  then show ?thesis by simp
next
  case (Some e)
  with assms have "queries = None" by (simp add: Plan_error_nil)
  with Some show ?thesis by simp
qed

theorem Plan_error_nil_audit_witness:
  "Plan sample_env y_then_empty unparsable_sdef sample_lset
     = Returns (x_then_y_plan, None, Some (Opaque ''empty query''))
   \<and> Plan sample_env x_then_y sample_sdef sample_lset = Returns (x_then_y_plan, Some sample_audit, None)"
  using Plan_error_nil_audit [OF Plan_unparsable] Plan_error_nil_audit [OF Plan_x_then_y]
    Plan_unparsable Plan_x_then_y
  by simp

text \<open>
  C2, evaluated where the code departs from it. Two nodes, \<open>A\<close> reporting zero addresses
  and \<open>B\<close> one; both goroutines of each loop run after their loop has ended and so read
  the loop variables of the last iteration. Nobody asks \<open>A\<close> for its peer info, \<open>Connect\<close>
  returns no error, and \<open>B\<close> is sent the connect task twice, its subject holding an empty
  first slot. With every goroutine in its own iteration the claim holds
  (\<open>Connect_own_iteration_no_address\<close>).
\<close>

theorem Connect_after_loop_misses_silent_node:
  "fanout_ok 2 (after_loop 2)
   \<and> PeerInfo_of A_without_address nodeA = Inr \<lparr>PeerID = ''QmA'', Addrs = []\<rparr>
   \<and> Connect A_without_address (after_loop 2) (after_loop 2) [nodeA, nodeB] =
       (None, [(nodeB, connect_task '',/ip4/10.0.0.2/tcp/4001/p2p/QmB''),
               (nodeB, connect_task '',/ip4/10.0.0.2/tcp/4001/p2p/QmB'')])"
  using after_loop_ok
  by (simp add: connect_eval A_without_address_def after_loop_def)

text \<open>
  C4, evaluated where the code departs from it. Two nodes with one address each, the same
  schedule: slot 0 of the results array is never written, the subject is
  \<open>,/ip4/10.0.0.2/tcp/4001/p2p/QmB\<close>, node \<open>A\<close> is sent no task and node \<open>B\<close> two.
  With every goroutine in its own iteration the claim holds
  (\<open>Connect_own_iteration_broadcast\<close>).
\<close>

theorem Connect_after_loop_wrong_slots:
  "fanout_ok 2 (after_loop 2)
   \<and> PeerInfo_of all_reachable nodeA = Inr \<lparr>PeerID = ''QmA'', Addrs = [''/ip4/10.0.0.1/tcp/4001'']\<rparr>
   \<and> PeerInfo_of all_reachable nodeB = Inr \<lparr>PeerID = ''QmB'', Addrs = [''/ip4/10.0.0.2/tcp/4001'']\<rparr>
   \<and> Connect all_reachable (after_loop 2) (after_loop 2) [nodeA, nodeB] =
       (None, [(nodeB, connect_task '',/ip4/10.0.0.2/tcp/4001/p2p/QmB''),
               (nodeB, connect_task '',/ip4/10.0.0.2/tcp/4001/p2p/QmB'')])"
  using after_loop_ok
  by (simp add: connect_eval all_reachable_def after_loop_def)

text \<open>
  C3. The final persistence step is one transaction that creates the report and then
  writes the benchmark with status \<open>Done\<close>: when both writes succeed both are kept; when
  the report is created and the benchmark update fails, or when the report creation fails,
  the store is the one before the transaction (no report is visible, the benchmark is
  still \<open>Running\<close>) and the wrapped error is returned.
\<close>

theorem persist_done_atomic:
  "(CreateReport R db (ID benchmark) report = Inr tx1
      \<and> UpdateBenchmark R tx1 (benchmark\<lparr>Status := BenchmarkDone\<rparr>) = Inr (tx2, updated)
      \<longrightarrow> persist_done R db benchmark report = (tx2, None))
   \<and> (CreateReport R db (ID benchmark) report = Inr tx1
      \<and> UpdateBenchmark R tx1 (benchmark\<lparr>Status := BenchmarkDone\<rparr>) = Inl err
      \<longrightarrow> persist_done R db benchmark report = (db, Some (Wrap err ''failed to update benchmark'')))
   \<and> (CreateReport R db (ID benchmark) report = Inl err
      \<longrightarrow> persist_done R db benchmark report = (db, Some (Wrap err ''failed to create report'')))"
  by (simp add: persist_done_def db_Update_def)

theorem persist_done_atomic_witness:
  "CreateReport failing_update running_store (ID (new_benchmark sample_prepared)) sample_report
     = Inr (running_store\<lparr>reports := [(''c1-s1-1572566400000000123'', sample_report)]\<rparr>)
   \<and> UpdateBenchmark failing_update
        (running_store\<lparr>reports := [(''c1-s1-1572566400000000123'', sample_report)]\<rparr>)
        ((new_benchmark sample_prepared)\<lparr>Status := BenchmarkDone\<rparr>) = Inl (Opaque ''bucket is read-only'')
   \<and> persist_done failing_update running_store (new_benchmark sample_prepared) sample_report
        = (running_store, Some (Wrap (Opaque ''bucket is read-only'') ''failed to update benchmark''))
   \<and> reports running_store = []
   \<and> map Status (benchmarks running_store) = [BenchmarkRunning]
   \<and> persist_done sample_router running_store (new_benchmark sample_prepared) sample_report
        = (done_store, None)
   \<and> persist_done failing_report running_store (new_benchmark sample_prepared) sample_report
        = (running_store, Some (Wrap (Opaque ''report exists'') ''failed to create report''))"
proof -
  let ?b = "new_benchmark sample_prepared"
  let ?tx1 = "running_store\<lparr>reports := [(''c1-s1-1572566400000000123'', sample_report)]\<rparr>"
  have cr: "CreateReport failing_update running_store (ID ?b) sample_report = Inr ?tx1"
    by (simp add: failing_update_def sample_router_def running_store_def new_benchmark_def
        sample_prepared_def)
  have up: "UpdateBenchmark failing_update ?tx1 (?b\<lparr>Status := BenchmarkDone\<rparr>)
              = Inl (Opaque ''bucket is read-only'')"
    by (simp add: failing_update_def)
  have cr2: "CreateReport sample_router running_store (ID ?b) sample_report = Inr ?tx1"
    by (simp add: sample_router_def running_store_def new_benchmark_def sample_prepared_def)
  have up2: "UpdateBenchmark sample_router ?tx1 (?b\<lparr>Status := BenchmarkDone\<rparr>)
              = Inr (done_store, ?b\<lparr>Status := BenchmarkDone\<rparr>)"
    by (simp add: sample_router_def running_store_def done_store_def new_benchmark_def
        sample_prepared_def)
  have cr3: "CreateReport failing_report running_store (ID ?b) sample_report = Inl (Opaque ''report exists'')"
    by (simp add: failing_report_def)
  from persist_done_atomic [of failing_update running_store ?b sample_report ?tx1 _ _ "Opaque ''bucket is read-only''"]
    cr up
  have a: "persist_done failing_update running_store ?b sample_report
        = (running_store, Some (Wrap (Opaque ''bucket is read-only'') ''failed to update benchmark''))"
    by simp
  from persist_done_atomic [of sample_router running_store ?b sample_report ?tx1 done_store
      "?b\<lparr>Status := BenchmarkDone\<rparr>"] cr2 up2
  have b: "persist_done sample_router running_store ?b sample_report = (done_store, None)"
    by simp
  from persist_done_atomic [of failing_report running_store ?b sample_report _ _ _ "Opaque ''report exists''"]
    cr3
  have c: "persist_done failing_report running_store ?b sample_report
        = (running_store, Some (Wrap (Opaque ''report exists'') ''failed to create report''))"
    by simp
  have d: "reports running_store = [] \<and> map Status (benchmarks running_store) = [BenchmarkRunning]"
    by (simp add: running_store_def new_benchmark_def)
  from cr up a b c d show ?thesis by simp
qed

text \<open>
  C7. When plan execution fails after the benchmark record was created, the handler
  returns the error (wrapped as \<open>failed to run scenario plan\<close>) and the store is
  exactly the one \<open>CreateBenchmark\<close> left: no report is created and the benchmark record
  is not updated, so it stays \<open>Running\<close>.
\<close>

theorem postBenchmarksCreate_run_fails:
  assumes prep: "prepare R P C F1 F2 S r db = Returns (Inr p)"
    and created: "CreateBenchmark R db (new_benchmark p) = Inr (db1, benchmark)"
    and run: "scenarios_Run R (p_lset p) (p_plan p)
                (map (\<lambda>addr. addr @ ''/p2p/'' @ seeder_ID R) (seeder_Addrs R)) = Inl err"
  shows "postBenchmarksCreate R P C F1 F2 S r db
           = Returns (db1, Some (Wrap err ''failed to run scenario plan''))"
  using assms by (simp add: postBenchmarksCreate_def run_and_persist_def)

theorem postBenchmarksCreate_run_fails_witness:
  "prepare failing_run sample_env all_reachable (at_once 3) (at_once 3) x_then_y sample_request empty_store
     = Returns (Inr sample_prepared)
   \<and> CreateBenchmark failing_run empty_store (new_benchmark sample_prepared)
       = Inr (running_store, new_benchmark sample_prepared)
   \<and> postBenchmarksCreate failing_run sample_env all_reachable (at_once 3) (at_once 3) x_then_y
        sample_request empty_store
       = Returns (running_store, Some (Wrap (Opaque ''node B timed out'') ''failed to run scenario plan''))
   \<and> map Status (benchmarks running_store) = [BenchmarkRunning]
   \<and> reports running_store = []"
proof -
  have created: "CreateBenchmark failing_run empty_store (new_benchmark sample_prepared)
       = Inr (running_store, new_benchmark sample_prepared)"
    by (simp add: failing_run_def sample_router_def empty_store_def running_store_def)
  have run: "scenarios_Run failing_run (p_lset sample_prepared) (p_plan sample_prepared)
       (map (\<lambda>addr. addr @ ''/p2p/'' @ seeder_ID failing_run) (seeder_Addrs failing_run))
       = Inl (Opaque ''node B timed out'')"
    by (simp add: failing_run_def)
  from postBenchmarksCreate_run_fails [OF prepare_failing_run created run] prepare_failing_run created
  show ?thesis by (simp add: running_store_def new_benchmark_def)
qed

text \<open>
  C9 (as amended). The benchmark identifier is the cluster id, a hyphen, the scenario id,
  a hyphen and the nanosecond timestamp in decimal; no uniqueness check is made. The
  record handed to \<open>CreateBenchmark\<close>, before the plan is executed, has this id, status
  \<open>Running\<close>, the cluster and scenario fetched from the store, the plan just computed,
  and the labels benchmark id, cluster id, scenario id.
\<close>

theorem postBenchmarksCreate_creates_running:
  assumes prep: "prepare R P C F1 F2 S r db = Returns (Inr p)"
  shows "p_bid p = r ''cluster'' @ ''-'' @ r ''scenario'' @ ''-'' @ FormatInt (UnixNano R)
       \<and> GetCluster R db (r ''cluster'') = Inr (p_cluster p)
       \<and> GetScenario R db (r ''scenario'') = Inr (p_scenario p)
       \<and> Plan P S (Definition (p_scenario p)) (p_lset p) = Returns (p_plan p, p_queries p, None)
       \<and> postBenchmarksCreate R P C F1 F2 S r db =
           Returns (run_and_persist R db p
             (CreateBenchmark R db
                \<lparr>ID = p_bid p, Status = BenchmarkRunning, Cluster = p_cluster p,
                 Scenario = p_scenario p, BenchmarkPlan = p_plan p,
                 Labels = [p_bid p, r ''cluster'', r ''scenario'']\<rparr>))"
proof -
  from prep obtain noReset scenario cluster mns plan queries where
    sc: "GetScenario R db (r ''scenario'') = Inr scenario" and
    cl: "GetCluster R db (r ''cluster'') = Inr cluster" and
    ls: "ListNodes R db (r ''cluster'') = Inr mns" and
    pl: "Plan P S (Definition scenario) (map LNode mns) = Returns (plan, queries, None)" and
    p: "p = \<lparr>p_sid = r ''scenario'', p_cid = r ''cluster'',
             p_bid = r ''cluster'' @ ''-'' @ r ''scenario'' @ ''-'' @ FormatInt (UnixNano R),
             p_scenario = scenario, p_cluster = cluster, p_lset = map LNode mns, p_plan = plan,
             p_queries = queries\<rparr>"
    by (auto simp: prepare_def Let_def split: sum.splits option.splits outcome.splits if_splits)
  from prep p sc cl pl show ?thesis
    by (simp add: postBenchmarksCreate_def new_benchmark_def)
qed

theorem postBenchmarksCreate_creates_running_witness:
  "prepare sample_router sample_env all_reachable (at_once 3) (at_once 3) x_then_y sample_request empty_store
     = Returns (Inr sample_prepared)
   \<and> p_bid sample_prepared = ''c1-s1-1572566400000000123''
   \<and> postBenchmarksCreate sample_router sample_env all_reachable (at_once 3) (at_once 3) x_then_y
        sample_request empty_store
       = Returns (run_and_persist sample_router empty_store sample_prepared
           (CreateBenchmark sample_router empty_store
              \<lparr>ID = ''c1-s1-1572566400000000123'', Status = BenchmarkRunning, Cluster = sample_cluster,
               Scenario = sample_scenario, BenchmarkPlan = x_then_y_plan,
               Labels = [''c1-s1-1572566400000000123'', ''c1'', ''s1'']\<rparr>))
   \<and> postBenchmarksCreate sample_router sample_env all_reachable (at_once 3) (at_once 3) x_then_y
        sample_request empty_store = Returns (done_store, None)"
proof -
  have cb: "CreateBenchmark sample_router empty_store (new_benchmark sample_prepared)
       = Inr (running_store, new_benchmark sample_prepared)"
    by (simp add: sample_router_def empty_store_def running_store_def)
  have run: "scenarios_Run sample_router lset plan addrs = Inr sample_execution" for lset plan addrs
    by (simp add: sample_router_def)
  have q: "p_queries sample_prepared = Some sample_audit"
    by (simp add: sample_prepared_def)
  have "run_and_persist sample_router empty_store sample_prepared
          (CreateBenchmark sample_router empty_store (new_benchmark sample_prepared)) = (done_store, None)"
    by (simp add: run_and_persist_def cb run q make_report_sample persist_done_sample)
  then have full: "postBenchmarksCreate sample_router sample_env all_reachable (at_once 3) (at_once 3) x_then_y
        sample_request empty_store = Returns (done_store, None)"
    by (simp add: postBenchmarksCreate_def prepare_sample)
  from postBenchmarksCreate_creates_running [OF prepare_sample] prepare_sample full
  show ?thesis by (simp add: sample_prepared_def sample_request_def)
qed

text \<open>
  C9 as stated fails: the identifier is not the plain concatenation of the three parts.
\<close>

theorem benchmark_id_not_concatenation_counterexample:
  "prepare sample_router sample_env all_reachable (at_once 3) (at_once 3) x_then_y sample_request empty_store
     = Returns (Inr sample_prepared)
   \<and> sample_request ''cluster'' = ''c1'' \<and> sample_request ''scenario'' = ''s1''
   \<and> FormatInt (UnixNano sample_router) = ''1572566400000000123''
   \<and> p_bid sample_prepared = ''c1-s1-1572566400000000123''
   \<and> p_bid sample_prepared
        \<noteq> sample_request ''cluster'' @ sample_request ''scenario'' @ FormatInt (UnixNano sample_router)"
  using prepare_sample
  by (simp add: sample_prepared_def sample_request_def sample_router_def FormatInt_sample)

end
